theory Spec2Isabelle
  imports Main "HOL-Library.AList"
begin

section \<open>Python values, errors and string operations\<close>

text \<open>
  The exceptions the modelled functions can raise. A function that can raise returns
  \<open>py_error + 'a\<close>, with \<open>Inl\<close> for the exception.
\<close>

datatype py_error =
    ValueError | AttributeError | FileNotFoundError | IsADirectoryError | ZeroDivisionError
  | RemoteError

text \<open>
  \<open>str.lower()\<close> and \<open>str.strip()\<close> follow the Unicode tables of the Python runtime,
  which are not part of the program: the functions below take them as a parameter
  \<open>py\<close>, and nothing is assumed about them but what a statement says. \<open>ascii_text\<close> is
  what they do on ASCII text: \<open>lower\<close> maps \<open>A\<close>..\<open>Z\<close> and \<open>strip\<close> removes the ASCII
  white space. \<open>ascii_faithful py\<close> says that \<open>py\<close> agrees with them on ASCII strings.
\<close>

record py_text =
  str_lower :: "string \<Rightarrow> string"
  str_strip :: "string \<Rightarrow> string"

definition lower_char :: "char \<Rightarrow> char" where
  "lower_char c =
     (if (65::nat) \<le> of_char c \<and> of_char c \<le> (90::nat) then char_of (of_char c + (32::nat)) else c)"

definition lower :: "string \<Rightarrow> string" where
  "lower s = map lower_char s"

definition py_isspace :: "char \<Rightarrow> bool" where
  "py_isspace c = (of_char c \<in> {9::nat, 10, 11, 12, 13, 28, 29, 30, 31, 32})"

text \<open>\<open>s.strip(chars)\<close> removes the characters satisfying \<open>p\<close> from both ends.\<close>

definition strip_chars :: "(char \<Rightarrow> bool) \<Rightarrow> string \<Rightarrow> string" where
  "strip_chars p s = rev (dropWhile p (rev (dropWhile p s)))"

definition strip :: "string \<Rightarrow> string" where
  "strip s = strip_chars py_isspace s"

definition ascii_text :: py_text where
  "ascii_text = \<lparr>str_lower = lower, str_strip = strip\<rparr>"

definition is_ascii :: "string \<Rightarrow> bool" where
  "is_ascii s = list_all (\<lambda>c. of_char c < (128::nat)) s"

definition ascii_faithful :: "py_text \<Rightarrow> bool" where
  "ascii_faithful py =
     (\<forall>s. is_ascii s \<longrightarrow> str_lower py s = lower s \<and> str_strip py s = strip s)"

text \<open>The characters of the argument of \<open>strip('"\'')\<close>: the double and the single quote.\<close>

definition is_quote :: "char \<Rightarrow> bool" where
  "is_quote c = (of_char c = (34::nat) \<or> of_char c = (39::nat))"

definition strip_quotes :: "string \<Rightarrow> string" where
  "strip_quotes s = strip_chars is_quote s"

text \<open>\<open>sub in s\<close> on strings: \<open>sub\<close> occurs in \<open>s\<close> as a contiguous substring.\<close>

fun contains :: "string \<Rightarrow> string \<Rightarrow> bool" where
  "contains sub [] = (sub = [])"
| "contains sub (c # cs) = (take (length sub) (c # cs) = sub \<or> contains sub cs)"

text \<open>
  \<open>s.split(c, 1)\<close> for a one-character separator: at most one cut, at the first
  occurrence; a string without the separator comes back whole.
\<close>

definition split1 :: "char \<Rightarrow> string \<Rightarrow> string list" where
  "split1 c s =
     (if c \<in> set s then [takeWhile (\<lambda>x. x \<noteq> c) s, tl (dropWhile (\<lambda>x. x \<noteq> c) s)] else [s])"

text \<open>
  \<open>s.split(sep)\<close> for a non-empty separator: cut at every occurrence, leftmost first,
  occurrences not overlapping. \<open>cur\<close> is the part read since the last cut.
\<close>

fun split_acc :: "string \<Rightarrow> string \<Rightarrow> string \<Rightarrow> string list" where
  "split_acc sep cur [] = [cur]"
| "split_acc sep cur (c # cs) =
     (if take (length sep) (c # cs) = sep
      then cur # split_acc sep [] (drop (length sep - 1) cs)
      else split_acc sep (cur @ [c]) cs)"

definition split_on :: "string \<Rightarrow> string \<Rightarrow> py_error + string list" where
  "split_on sep s = (if sep = [] then Inl ValueError else Inr (split_acc sep [] s))"

text \<open>\<open>a, b = xs\<close>: unpacking raises ValueError unless there are exactly two values.\<close>

definition unpack2 :: "'a list \<Rightarrow> py_error + ('a \<times> 'a)" where
  "unpack2 xs = (case xs of [a, b] \<Rightarrow> Inr (a, b) | _ \<Rightarrow> Inl ValueError)"

text \<open>\<open>a < b\<close> on strings: lexicographic, by character code.\<close>

fun str_less :: "string \<Rightarrow> string \<Rightarrow> bool" where
  "str_less xs [] = False"
| "str_less [] (y # ys) = True"
| "str_less (x # xs) (y # ys) =
     ((of_char x :: nat) < of_char y \<or> (x = y \<and> str_less xs ys))"

section \<open>Records of the remote service\<close>

text \<open>
  A comment as the client library hands it over. The author may be missing, and so may
  the attribute \<open>displayName\<close> of the author: reading \<open>comment.author.displayName\<close> then
  raises AttributeError. An attribute that is there may hold \<open>None\<close> instead of a name.
\<close>

datatype name_attr = NoAttribute | NullName | Name string

record author =
  displayName :: name_attr

record comment =
  comment_id :: string
  author :: "author option"
  created :: string
  body :: string

text \<open>
  The remote service as the functions below use it. Each operation is a function of its
  arguments: \<open>comments\<close> is \<open>jira.comments(jira.issue(key))\<close>, \<open>search_total\<close> is the
  \<open>total\<close> attribute of the count-only search, \<open>search_issues\<close> takes the query, the
  field list, \<open>startAt\<close> and \<open>maxResults\<close> and gives the page returned. The two
  mutating calls may fail with an error of the service, which the callers do not catch.
  Nothing is assumed about the pages: they may be shorter or longer than asked for.
\<close>

datatype pyval = PStr string | PInt int | PNone | PList "pyval list" | PObj "(string \<times> pyval) list" string

record issue =
  key :: string
  issue_fields :: pyval

record new_issue =
  project :: string
  summary :: string
  description :: string
  issuetype :: string
  priority :: string

record jira_client =
  comments :: "string \<Rightarrow> comment list"
  search_total :: "string \<Rightarrow> int"
  search_issues :: "string \<Rightarrow> string list \<Rightarrow> int \<Rightarrow> int \<Rightarrow> issue list"
  create_issue :: "new_issue \<Rightarrow> py_error + string"
  add_issues_to_epic :: "string \<Rightarrow> string list \<Rightarrow> py_error + unit"

text \<open>The calls sent to the service, in order.\<close>

datatype remote_call =
    GetIssue string
  | GetComments string
  | SearchCount string
  | Search string "string list" int int
  | CreateIssue new_issue
  | AddIssuesToEpic string "string list"

text \<open>
  What a function hands to its output channel: the headers and rows given to
  \<open>tabulate\<close>, the header and rows written to a CSV file, or the list dumped to a
  JSON file. \<open>NoOutput\<close> is an output format that is none of the three.
\<close>

datatype ('row, 'cell, 'obj) rendered =
    Tabulate "string list" "'row list"
  | CsvFile string "string list" "'cell list list"
  | JsonFile string "'obj list"
  | NoOutput

section \<open>Comments and the comment filter\<close>

text \<open>
  \<open>comment.author.displayName\<close>: the name, or \<open>None\<close>, or AttributeError.
  \<open>lowered_displayName\<close> is \<open>comment.author.displayName.lower()\<close>, which raises
  AttributeError on \<open>None\<close> as well.
\<close>

definition author_displayName :: "comment \<Rightarrow> py_error + string option" where
  "author_displayName c =
     (case author c of
        None \<Rightarrow> Inl AttributeError
      | Some a \<Rightarrow>
          (case displayName a of
             NoAttribute \<Rightarrow> Inl AttributeError
           | NullName \<Rightarrow> Inr None
           | Name n \<Rightarrow> Inr (Some n)))"

definition lowered_displayName :: "py_text \<Rightarrow> comment \<Rightarrow> py_error + string" where
  "lowered_displayName py c =
     (case author_displayName c of
        Inl e \<Rightarrow> Inl e
      | Inr None \<Rightarrow> Inl AttributeError
      | Inr (Some n) \<Rightarrow> Inr (str_lower py n))"

text \<open>
  The body of the \<open>try\<close> block of \<open>get_ticket_comments\<close> for one filter string and one
  comment: \<open>Inr True\<close> when the comment is excluded (\<open>include_comment = False; break\<close>),
  \<open>Inr False\<close> when the block falls through, \<open>Inl e\<close> when it raises \<open>e\<close>. The three
  field tests of the \<open>if\<close>/\<open>elif\<close> chain exclude one another, so the chain is written
  as nested tests; a field that is none of the three falls through.
\<close>

definition check_filter :: "py_text \<Rightarrow> string \<Rightarrow> comment \<Rightarrow> py_error + bool" where
  "check_filter py filter_str c =
     (case unpack2 (split1 CHR '':'' filter_str) of
        Inl e \<Rightarrow> Inl e
      | Inr (field0, value0) \<Rightarrow>
          (let field = str_strip py (str_lower py field0);
               value = strip_quotes (str_lower py value0)
           in if field = ''author'' then
                (case lowered_displayName py c of
                   Inl e \<Rightarrow> Inl e
                 | Inr n \<Rightarrow> Inr (\<not> contains value n))
              else if field = ''text'' then Inr (\<not> contains value (str_lower py (body c)))
              else if field = ''date'' then
                (let comment_date = take 10 (created c)
                 in if contains ''to'' value then
                      (case split_on ''to'' value of
                         Inl e \<Rightarrow> Inl e
                       | Inr parts \<Rightarrow>
                           (case unpack2 parts of
                              Inl e \<Rightarrow> Inl e
                            | Inr (start_date, end_date) \<Rightarrow>
                                Inr (str_less comment_date (str_strip py start_date)
                                     \<or> str_less (str_strip py end_date) comment_date)))
                    else Inr (comment_date \<noteq> value))
              else Inr False))"

text \<open>A warning written to standard error: the filter string and the exception caught.\<close>

datatype warning = Warning string py_error

text \<open>
  The inner loop over the filters for one comment: the final \<open>include_comment\<close> and the
  warnings written. An exclusion breaks out of the loop; a caught exception writes a
  warning and continues with the next filter. \<open>filters\<close> is the list (\<open>None\<close> and the
  empty tuple both skip the loop).
\<close>

fun apply_filters :: "py_text \<Rightarrow> string list \<Rightarrow> comment \<Rightarrow> bool \<times> warning list" where
  "apply_filters py [] c = (True, [])"
| "apply_filters py (filter_str # filters) c =
     (case check_filter py filter_str c of
        Inl e \<Rightarrow> (fst (apply_filters py filters c),
                  Warning filter_str e # snd (apply_filters py filters c))
      | Inr excluded \<Rightarrow> (if excluded then (False, []) else apply_filters py filters c))"

text \<open>The outer loop over the comments, with \<open>filtered_comments\<close> and the warnings so far.\<close>

fun filter_comments ::
  "py_text \<Rightarrow> string list \<Rightarrow> comment list \<Rightarrow> comment list \<Rightarrow> warning list
     \<Rightarrow> comment list \<times> warning list" where
  "filter_comments py filters [] filtered_comments ws = (filtered_comments, ws)"
| "filter_comments py filters (c # cs) filtered_comments ws =
     filter_comments py filters cs
       (if fst (apply_filters py filters c) then filtered_comments @ [c] else filtered_comments)
       (ws @ snd (apply_filters py filters c))"

text \<open>
  The dictionary built for one comment, and the entry appended to \<open>comments_data\<close>: a
  list of four cells for the table, the dictionary itself otherwise. Reading the display
  name raises AttributeError when the attribute is missing, which nothing catches here; a
  display name that is \<open>None\<close> goes into the entry as it is, so the author of an entry
  is a name or \<open>None\<close>.
\<close>

record comment_data =
  data_id :: string
  data_author :: "string option"
  data_date :: string
  data_body :: string

datatype comment_row = TableRow "string option list" | DataRow comment_data

definition make_comment_data :: "comment \<Rightarrow> py_error + comment_data" where
  "make_comment_data c =
     (case author_displayName c of
        Inl e \<Rightarrow> Inl e
      | Inr n \<Rightarrow> Inr \<lparr>data_id = comment_id c, data_author = n,
                      data_date = take 19 (created c), data_body = body c\<rparr>)"

definition comment_row_of :: "string \<Rightarrow> comment_data \<Rightarrow> comment_row" where
  "comment_row_of output_format d =
     (if output_format = ''table''
      then TableRow [Some (data_id d), data_author d, Some (data_date d),
                     Some (take 50 (data_body d)
                             @ (if length (data_body d) > 50 then ''...'' else []))]
      else DataRow d)"

fun format_comments :: "string \<Rightarrow> comment list \<Rightarrow> comment_row list \<Rightarrow> py_error + comment_row list" where
  "format_comments output_format [] comments_data = Inr comments_data"
| "format_comments output_format (c # cs) comments_data =
     (case make_comment_data c of
        Inl e \<Rightarrow> Inl e
      | Inr d \<Rightarrow> format_comments output_format cs (comments_data @ [comment_row_of output_format d]))"

text \<open>The row written to the CSV file for one entry (the entries are dictionaries there).\<close>

fun csv_comment_row :: "comment_row \<Rightarrow> string option list" where
  "csv_comment_row (DataRow d) =
     [Some (data_id d), data_author d, Some (data_date d), Some (data_body d)]"
| "csv_comment_row (TableRow cells) = cells"

definition comments_output ::
  "string \<Rightarrow> string \<Rightarrow> comment_row list \<Rightarrow> (comment_row, string option, comment_row) rendered" where
  "comments_output issue_key output_format comments_data =
     (if output_format = ''table'' then Tabulate [''ID'', ''Author'', ''Date'', ''Comment''] comments_data
      else if output_format = ''csv''
      then CsvFile (issue_key @ ''_comments.csv'') [''ID'', ''Author'', ''Date'', ''Comment'']
             (map csv_comment_row comments_data)
      else if output_format = ''json'' then JsonFile (issue_key @ ''_comments.json'') comments_data
      else NoOutput)"

text \<open>
  \<open>get_ticket_comments\<close>: the calls made, the warnings written, and either the exception
  that ended the call or the returned \<open>comments_data\<close> with the output produced.
\<close>

record comments_result =
  calls :: "remote_call list"
  warnings :: "warning list"
  returned :: "py_error + comment_row list \<times> (comment_row, string option, comment_row) rendered"

definition cap_comments :: "int \<Rightarrow> comment list \<Rightarrow> comment list" where
  "cap_comments max_results filtered_comments =
     (if max_results > 0 \<and> int (length filtered_comments) > max_results
      then take (nat max_results) filtered_comments else filtered_comments)"

definition get_ticket_comments ::
  "py_text \<Rightarrow> jira_client \<Rightarrow> string \<Rightarrow> string list \<Rightarrow> int \<Rightarrow> string \<Rightarrow> comments_result" where
  "get_ticket_comments py jira issue_key filters max_results output_format =
     (let cs = comments jira issue_key;
          filtered = filter_comments py filters cs [] [];
          filtered_comments = cap_comments max_results (fst filtered)
      in \<lparr>calls = [GetIssue issue_key, GetComments issue_key],
          warnings = snd filtered,
          returned =
            (case format_comments output_format filtered_comments [] of
               Inl e \<Rightarrow> Inl e
             | Inr comments_data \<Rightarrow>
                 Inr (comments_data, comments_output issue_key output_format comments_data))\<rparr>)"

section \<open>Field access and projection\<close>

text \<open>
  \<open>getattr(obj, name)\<close>: only an object (\<open>PObj\<close>, with its attributes and the text
  \<open>str\<close> gives for it) has attributes here; on every other value, and on a missing
  attribute, AttributeError is raised. The built-in methods of strings, numbers and
  lists are not modelled.
\<close>

fun getattr :: "pyval \<Rightarrow> string \<Rightarrow> py_error + pyval" where
  "getattr (PObj attrs text) name =
     (case map_of attrs name of None \<Rightarrow> Inl AttributeError | Some v \<Rightarrow> Inr v)"
| "getattr v name = Inl AttributeError"

text \<open>The loop of \<open>safe_getattr\<close> over the segments of the chain.\<close>

fun getattr_chain :: "pyval \<Rightarrow> string list \<Rightarrow> py_error + pyval" where
  "getattr_chain obj [] = Inr obj"
| "getattr_chain obj (attr # attrs) =
     (case getattr obj attr of Inl e \<Rightarrow> Inl e | Inr v \<Rightarrow> getattr_chain v attrs)"

definition safe_getattr :: "pyval \<Rightarrow> string \<Rightarrow> pyval \<Rightarrow> pyval" where
  "safe_getattr obj attr_chain dflt =
     (case getattr_chain obj (split_acc ''.'' [] attr_chain) of
        Inl e \<Rightarrow> dflt
      | Inr v \<Rightarrow> v)"

text \<open>\<open>getattr(obj, name, default)\<close>, the three-argument form.\<close>

definition getattr_default :: "pyval \<Rightarrow> string \<Rightarrow> pyval \<Rightarrow> pyval" where
  "getattr_default obj name dflt = (case getattr obj name of Inl e \<Rightarrow> dflt | Inr v \<Rightarrow> v)"

text \<open>\<open>if hasattr(v, '__dict__'): v = str(v)\<close>: an object is replaced by its text.\<close>

fun stringify :: "pyval \<Rightarrow> pyval" where
  "stringify (PObj attrs text) = PStr text"
| "stringify v = v"

text \<open>The value \<open>list_tickets\<close> computes for one field of one issue (both loops agree).\<close>

definition project_field :: "issue \<Rightarrow> string \<Rightarrow> pyval" where
  "project_field i field =
     (if field = ''key'' then PStr (key i)
      else stringify (safe_getattr (issue_fields i) field (PStr ''N/A'')))"

text \<open>
  A dictionary is an association list in insertion order; \<open>d[k] = v\<close> is
  \<open>AList.update\<close> (a key already there keeps its place), \<open>d.get(k, default)\<close> is
  \<open>dict_get\<close>.
\<close>

definition dict_get :: "('k \<times> 'v) list \<Rightarrow> 'k \<Rightarrow> 'v \<Rightarrow> 'v" where
  "dict_get d k dflt = (case map_of d k of None \<Rightarrow> dflt | Some v \<Rightarrow> v)"

definition ticket_row :: "string list \<Rightarrow> issue \<Rightarrow> pyval list" where
  "ticket_row flds i = map (project_field i) flds"

definition ticket_dict :: "string list \<Rightarrow> issue \<Rightarrow> (string \<times> pyval) list" where
  "ticket_dict flds i =
     foldl (\<lambda>ticket field. AList.update field (project_field i field) ticket) [] flds"

type_synonym ticket_rendered = "(pyval list, pyval, (string \<times> pyval) list) rendered"

text \<open>The output part of \<open>list_tickets\<close>, from \<open>tickets_data = []\<close> on.\<close>

definition render_tickets :: "string \<Rightarrow> string list \<Rightarrow> string \<Rightarrow> issue list \<Rightarrow> ticket_rendered" where
  "render_tickets project_key flds output_format total_issues =
     (if output_format = ''table'' then Tabulate flds (map (ticket_row flds) total_issues)
      else if output_format = ''csv''
      then CsvFile (project_key @ ''_tickets.csv'') flds
             (map (\<lambda>ticket. map (\<lambda>field. dict_get ticket field (PStr ''N/A'')) flds)
                (map (ticket_dict flds) total_issues))
      else if output_format = ''json''
      then JsonFile (project_key @ ''_tickets.json'') (map (ticket_dict flds) total_issues)
      else NoOutput)"

text \<open>
  The row \<open>run_jql\<close> builds for one issue: four fixed columns, whatever field list the
  caller gave.
\<close>

definition jql_row :: "issue \<Rightarrow> pyval list" where
  "jql_row i =
     [getattr_default (issue_fields i) ''summary'' (PStr ''N/A''),
      safe_getattr (issue_fields i) ''status.name'' (PStr ''N/A''),
      safe_getattr (issue_fields i) ''assignee.displayName'' (PStr ''Unassigned''),
      PStr (key i)]"

text \<open>\<open>dict(zip(fields, ticket))\<close>: a later pair with the same key overwrites the value.\<close>

definition dict_of_pairs :: "('k \<times> 'v) list \<Rightarrow> ('k \<times> 'v) list" where
  "dict_of_pairs kvs = foldl (\<lambda>d kv. AList.update (fst kv) (snd kv) d) [] kvs"

definition render_jql :: "string list \<Rightarrow> string \<Rightarrow> issue list \<Rightarrow> ticket_rendered" where
  "render_jql flds output_format total_issues =
     (if output_format = ''table'' then Tabulate flds (map jql_row total_issues)
      else if output_format = ''csv''
      then CsvFile ''jql_query_tickets.csv'' flds (map jql_row total_issues)
      else if output_format = ''json''
      then JsonFile ''jql_query_tickets.json''
             (map (\<lambda>ticket. dict_of_pairs (zip flds ticket)) (map jql_row total_issues))
      else NoOutput)"

section \<open>Paginated fetching\<close>

text \<open>
  What a listing function leaves behind: the calls it sent, and either the exception
  that ended it or the issues it gathered with the output produced from them. Console
  messages and the progress bar are left out.
\<close>

record tickets_result =
  requests :: "remote_call list"
  finished :: "py_error + issue list \<times> ticket_rendered"

text \<open>Python's \<open>//\<close> and \<open>%\<close> are \<open>div\<close> and \<open>mod\<close> on \<open>int\<close>: both round towards minus infinity.\<close>

definition num_batches :: "int \<Rightarrow> int \<Rightarrow> int" where
  "num_batches total_issues_count items_per_batch =
     total_issues_count div items_per_batch
       + (if total_issues_count mod items_per_batch \<noteq> 0 then 1 else 0)"

text \<open>
  The \<open>while start_at < total_issues_count\<close> loop of \<open>run_jql\<close>, with the calls sent so
  far. Every round that goes on has received at least one issue, so \<open>start_at\<close> grows.
\<close>

function run_jql_loop ::
  "jira_client \<Rightarrow> string \<Rightarrow> string list \<Rightarrow> int \<Rightarrow> int \<Rightarrow> int \<Rightarrow> int \<Rightarrow> issue list \<Rightarrow> remote_call list
     \<Rightarrow> issue list \<times> remote_call list" where
  "run_jql_loop jira jql_query flds max_results items_per_batch total_issues_count
       start_at total_issues sent =
     (if start_at < total_issues_count then
        (let batch_size = min items_per_batch (total_issues_count - start_at);
             issues = search_issues jira jql_query flds start_at batch_size;
             sent' = sent @ [Search jql_query flds start_at batch_size]
         in if issues = [] then (total_issues, sent')
            else if max_results > 0 \<and> int (length (total_issues @ issues)) \<ge> max_results
            then (take (nat max_results) (total_issues @ issues), sent')
            else run_jql_loop jira jql_query flds max_results items_per_batch total_issues_count
                   (start_at + int (length issues)) (total_issues @ issues) sent')
      else (total_issues, sent))"
  by pat_completeness auto
termination
  by (relation "measure (\<lambda>(jira, jql_query, flds, max_results, items_per_batch, total_issues_count,
                           start_at, total_issues, sent). nat (total_issues_count - start_at))")
     auto

declare run_jql_loop.simps [simp del]

definition run_jql ::
  "jira_client \<Rightarrow> string \<Rightarrow> string list \<Rightarrow> int \<Rightarrow> int \<Rightarrow> string \<Rightarrow> tickets_result" where
  "run_jql jira jql_query flds max_results items_per_batch output_format =
     (let total_issues_count =
            (if max_results = 0 then search_total jira jql_query
             else min max_results (search_total jira jql_query))
      in if items_per_batch = 0
         then \<lparr>requests = [SearchCount jql_query], finished = Inl ZeroDivisionError\<rparr>
         else (let fetched = run_jql_loop jira jql_query flds max_results items_per_batch
                               total_issues_count 0 [] [SearchCount jql_query]
               in \<lparr>requests = snd fetched,
                   finished = Inr (fst fetched, render_jql flds output_format (fst fetched))\<rparr>))"

text \<open>
  The \<open>while True\<close> loop of \<open>list_tickets\<close>. It ends on an empty page, on a page shorter
  than asked for, or when the maximum is reached; a service that keeps sending full
  pages keeps it running, so the loop is a partial function: \<open>None\<close> is a run that
  never ends. \<open>list_batch_size\<close> is the size asked for in a round.
\<close>

definition list_batch_size :: "int \<Rightarrow> int \<Rightarrow> issue list \<Rightarrow> int" where
  "list_batch_size max_results items_per_batch total_issues =
     (if max_results > 0 then min items_per_batch (max_results - int (length total_issues))
      else items_per_batch)"

partial_function (option) list_tickets_loop ::
  "jira_client \<Rightarrow> string \<Rightarrow> string list \<Rightarrow> int \<Rightarrow> int \<Rightarrow> int \<Rightarrow> issue list \<Rightarrow> remote_call list
     \<Rightarrow> (issue list \<times> remote_call list) option" where
  "list_tickets_loop jira jql_query all_fields max_results items_per_batch
       start_at total_issues sent =
     (let batch_size = list_batch_size max_results items_per_batch total_issues;
          issues = search_issues jira jql_query all_fields start_at batch_size;
          sent' = sent @ [Search jql_query all_fields start_at batch_size]
      in if issues = [] then Some (total_issues, sent')
         else if int (length issues) < batch_size
                 \<or> (max_results > 0 \<and> int (length (total_issues @ issues)) \<ge> max_results)
         then Some (total_issues @ issues, sent')
         else list_tickets_loop jira jql_query all_fields max_results items_per_batch
                (start_at + int (length issues)) (total_issues @ issues) sent')"

text \<open>\<open>sep.join(xs)\<close>.\<close>

fun join :: "string \<Rightarrow> string list \<Rightarrow> string" where
  "join sep [] = []"
| "join sep [x] = x"
| "join sep (x # y # ys) = x @ sep @ join sep (y # ys)"

text \<open>
  \<open>list_tickets\<close>: \<open>None\<close> when the loop never ends. \<open>extra_fields\<close> and \<open>filters\<close> are
  lists (\<open>None\<close> is the empty list). \<open>list_query\<close> is the query string built from the
  project key and the filters. The field list with \<open>key\<close> appended is the one used from
  there on, for the request and for the columns.
\<close>

definition with_key :: "string list \<Rightarrow> string list" where
  "with_key flds = (if ''key'' \<in> set flds then flds else flds @ [''key''])"

definition list_query :: "string \<Rightarrow> string list \<Rightarrow> string" where
  "list_query project_key filters =
     ''project = '' @ project_key
       @ (if filters \<noteq> [] then '' AND '' @ join '' AND '' filters else [])"

definition list_tickets ::
  "jira_client \<Rightarrow> string \<Rightarrow> string list \<Rightarrow> string list \<Rightarrow> string \<Rightarrow> string list \<Rightarrow> int \<Rightarrow> int
     \<Rightarrow> tickets_result option" where
  "list_tickets jira project_key flds extra_fields output_format filters max_results items_per_batch =
     (case list_tickets_loop jira (list_query project_key filters) (with_key flds @ extra_fields)
             max_results items_per_batch 0 [] [] of
        None \<Rightarrow> None
      | Some fetched \<Rightarrow>
          Some \<lparr>requests = snd fetched,
                finished = Inr (fst fetched,
                                render_tickets project_key (with_key flds) output_format (fst fetched))\<rparr>)"

section \<open>Creating a ticket\<close>

text \<open>
  The local files: a path that does not exist maps to \<open>None\<close>; a path that exists maps
  to what \<open>open\<close> and \<open>read\<close> give for it, the text of the file or the error they raise
  (a directory, a file that may not be read, bytes that do not decode).
  \<open>epic_key\<close> is \<open>None\<close> or a string; the empty string counts as no epic, as \<open>if epic_key\<close>
  has it. No error is caught: each ends the call.
\<close>

record create_result =
  remote_calls :: "remote_call list"
  created_issue :: "py_error + string"

definition create_jira_ticket ::
  "(string \<rightharpoonup> py_error + string) \<Rightarrow> jira_client \<Rightarrow> string \<Rightarrow> string \<Rightarrow> string \<Rightarrow> string \<Rightarrow> string option
     \<Rightarrow> string \<Rightarrow> create_result" where
  "create_jira_ticket files jira project_key summary_text description_file_path priority_name
       epic_key issue_type =
     (case files description_file_path of
        None \<Rightarrow> \<lparr>remote_calls = [], created_issue = Inl FileNotFoundError\<rparr>
      | Some (Inl e) \<Rightarrow> \<lparr>remote_calls = [], created_issue = Inl e\<rparr>
      | Some (Inr description_text) \<Rightarrow>
          (let new_fields = \<lparr>project = project_key, summary = summary_text,
                             description = description_text, issuetype = issue_type,
                             priority = priority_name\<rparr>
           in case create_issue jira new_fields of
                Inl e \<Rightarrow> \<lparr>remote_calls = [CreateIssue new_fields], created_issue = Inl e\<rparr>
              | Inr issue_key \<Rightarrow>
                  (case epic_key of
                     None \<Rightarrow> \<lparr>remote_calls = [CreateIssue new_fields], created_issue = Inr issue_key\<rparr>
                   | Some epic \<Rightarrow>
                       if epic = [] then
                         \<lparr>remote_calls = [CreateIssue new_fields], created_issue = Inr issue_key\<rparr>
                       else
                         \<lparr>remote_calls = [CreateIssue new_fields, AddIssuesToEpic epic [issue_key]],
                           created_issue =
                             (case add_issues_to_epic jira epic [issue_key] of
                                Inl e \<Rightarrow> Inl e
                              | Inr u \<Rightarrow> Inr issue_key)\<rparr>)))"

section \<open>Notions used in the statements: the filter language\<close>

text \<open>
  The field and the value of a filter string with a separator: the text before the first
  colon, lower-cased and trimmed, and the text after it, lower-cased and with quotes
  removed from both ends. A token is unparseable when it has no separator or its field
  is none of the three known ones. \<open>token_excludes\<close> says when a token rules a comment
  out: the token has a separator, its field is known, its test can be carried out on the
  comment and fails.
\<close>

definition token_field :: "py_text \<Rightarrow> string \<Rightarrow> string" where
  "token_field py filter_str =
     str_strip py (str_lower py (takeWhile (\<lambda>x. x \<noteq> CHR '':'') filter_str))"

definition token_value :: "py_text \<Rightarrow> string \<Rightarrow> string" where
  "token_value py filter_str =
     strip_quotes (str_lower py (tl (dropWhile (\<lambda>x. x \<noteq> CHR '':'') filter_str)))"

definition unparseable :: "py_text \<Rightarrow> string \<Rightarrow> bool" where
  "unparseable py filter_str =
     (CHR '':'' \<notin> set filter_str
      \<or> token_field py filter_str \<notin> {''author'', ''text'', ''date''})"

definition str_le :: "string \<Rightarrow> string \<Rightarrow> bool" where
  "str_le a b = (a = b \<or> str_less a b)"

definition within :: "string \<Rightarrow> string \<Rightarrow> string \<Rightarrow> bool" where
  "within lo hi d = (str_le lo d \<and> str_le d hi)"

definition day :: "comment \<Rightarrow> string" where
  "day c = take 10 (created c)"

definition token_excludes :: "py_text \<Rightarrow> string \<Rightarrow> comment \<Rightarrow> bool" where
  "token_excludes py f c =
     (CHR '':'' \<in> set f \<and>
      (if token_field py f = ''author'' then
         (case author_displayName c of
            Inr (Some n) \<Rightarrow> \<not> contains (token_value py f) (str_lower py n)
          | _ \<Rightarrow> False)
       else if token_field py f = ''text''
       then \<not> contains (token_value py f) (str_lower py (body c))
       else if token_field py f = ''date'' then
         (if contains ''to'' (token_value py f) then
            (case split_acc ''to'' [] (token_value py f) of
               [lo, hi] \<Rightarrow> \<not> within (str_strip py lo) (str_strip py hi) (day c)
             | _ \<Rightarrow> False)
          else day c \<noteq> token_value py f)
       else False))"

definition filtered_comments :: "py_text \<Rightarrow> string list \<Rightarrow> comment list \<Rightarrow> comment list" where
  "filtered_comments py filters cs = fst (filter_comments py filters cs [] [])"

definition filter_warnings :: "py_text \<Rightarrow> string list \<Rightarrow> comment list \<Rightarrow> warning list" where
  "filter_warnings py filters cs = snd (filter_comments py filters cs [] [])"

text \<open>
  The entry expected for a comment whose author has the attribute \<open>displayName\<close>, read
  off the comment field by field: the identifier, the name or \<open>None\<close>, the first 19
  characters of the timestamp and the body, cut to 50 characters and marked in the table.
\<close>

definition shown_author :: "comment \<Rightarrow> string option" where
  "shown_author c =
     (case author c of
        None \<Rightarrow> None
      | Some a \<Rightarrow> (case displayName a of Name n \<Rightarrow> Some n | _ \<Rightarrow> None))"

definition has_displayName :: "comment \<Rightarrow> bool" where
  "has_displayName c =
     (case author c of None \<Rightarrow> False | Some a \<Rightarrow> displayName a \<noteq> NoAttribute)"

definition expected_entry :: "string \<Rightarrow> comment \<Rightarrow> comment_row" where
  "expected_entry output_format c =
     (if output_format = ''table''
      then TableRow [Some (comment_id c), shown_author c, Some (take 19 (created c)),
                     Some (if length (body c) > 50 then take 50 (body c) @ ''...'' else body c)]
      else DataRow \<lparr>data_id = comment_id c, data_author = shown_author c,
                     data_date = take 19 (created c), data_body = body c\<rparr>)"

text \<open>The comments the cap leaves: the first \<open>max_results\<close> filtered ones, or all of them.\<close>

definition selected_comments :: "py_text \<Rightarrow> int \<Rightarrow> string list \<Rightarrow> comment list \<Rightarrow> comment list" where
  "selected_comments py max_results filters cs =
     (if max_results > 0 then take (nat max_results) (filtered_comments py filters cs)
      else filtered_comments py filters cs)"

section \<open>Notions used in the statements: pagination runs\<close>

text \<open>
  The batch requests are the \<open>Search\<close> calls. \<open>effective_total\<close> is the computed total of
  \<open>run_jql\<close>: the remote total, or the smaller of it and the maximum. \<open>fetched_count\<close> is
  the number of issues a finished run gathered.
\<close>

fun is_search :: "remote_call \<Rightarrow> bool" where
  "is_search (Search q f s n) = True"
| "is_search call = False"

definition effective_total :: "jira_client \<Rightarrow> string \<Rightarrow> int \<Rightarrow> int" where
  "effective_total jira jql_query max_results =
     (if max_results = 0 then search_total jira jql_query
      else min max_results (search_total jira jql_query))"


text \<open>
  The states in which the loop of \<open>list_tickets\<close> begins a round: the start, and the
  state after a round that went on.
\<close>

inductive lt_reaches ::
  "jira_client \<Rightarrow> string \<Rightarrow> string list \<Rightarrow> int \<Rightarrow> int \<Rightarrow> int \<Rightarrow> issue list \<Rightarrow> remote_call list \<Rightarrow> bool"
  for jira :: jira_client and q :: string and f :: "string list" and max_results :: int and b :: int
  where
    first_round: "lt_reaches jira q f max_results b 0 [] []"
  | next_round:
      "lt_reaches jira q f max_results b start_at total_issues sent
       \<Longrightarrow> issues = search_issues jira q f start_at (list_batch_size max_results b total_issues)
       \<Longrightarrow> issues \<noteq> []
       \<Longrightarrow> \<not> (int (length issues) < list_batch_size max_results b total_issues
              \<or> (max_results > 0 \<and> int (length (total_issues @ issues)) \<ge> max_results))
       \<Longrightarrow> lt_reaches jira q f max_results b (start_at + int (length issues)) (total_issues @ issues)
             (sent @ [Search q f start_at (list_batch_size max_results b total_issues)])"

section \<open>Example inputs\<close>

definition alice_comment :: comment where
  "alice_comment = \<lparr>comment_id = ''10001'', author = Some \<lparr>displayName = Name ''Alice Smith''\<rparr>,
                     created = ''2023-01-15T09:30:00.000+0000'', body = ''Deployment is done''\<rparr>"

definition bob_comment :: comment where
  "bob_comment = \<lparr>comment_id = ''10002'', author = Some \<lparr>displayName = Name ''Bob Stone''\<rparr>,
                   created = ''2023-02-01T17:05:12.000+0000'', body = ''Rolled back''\<rparr>"

definition anonymous_comment :: comment where
  "anonymous_comment = \<lparr>comment_id = ''10003'', author = None,
                         created = ''2023-01-20T08:00:00.000+0000'', body = ''Seen it too''\<rparr>"

definition unnamed_comment :: comment where
  "unnamed_comment = \<lparr>comment_id = ''10004'', author = Some \<lparr>displayName = NullName\<rparr>,
                       created = ''2023-01-21T11:45:00.000+0000'', body = ''Fixed upstream''\<rparr>"

definition example_jira :: jira_client where
  "example_jira =
     \<lparr>comments = (\<lambda>issue_key. [alice_comment, bob_comment, unnamed_comment, anonymous_comment]),
      search_total = (\<lambda>jql_query. 0),
      search_issues = (\<lambda>jql_query flds start_at max_results. []),
      create_issue = (\<lambda>new_fields. Inr ''PROJ-7''),
      add_issues_to_epic = (\<lambda>epic issue_keys. Inr ())\<rparr>"

definition named_jira :: jira_client where
  "named_jira =
     \<lparr>comments = (\<lambda>issue_key. [alice_comment, bob_comment, unnamed_comment]),
      search_total = (\<lambda>jql_query. 0),
      search_issues = (\<lambda>jql_query flds start_at max_results. []),
      create_issue = (\<lambda>new_fields. Inr ''PROJ-7''),
      add_issues_to_epic = (\<lambda>epic issue_keys. Inr ())\<rparr>"

definition example_files :: "string \<rightharpoonup> py_error + string" where
  "example_files = [''notes/description.md'' \<mapsto> Inr ''Port the module.'',
                    ''notes'' \<mapsto> Inl IsADirectoryError]"

text \<open>
  Three services. \<open>stocked_jira\<close> holds a number of issues and answers every request with
  the page asked for, and reports a total that may be stale. \<open>trickling_jira\<close> holds
  three issues and sends one issue per request. \<open>generous_jira\<close> answers the first
  request with two issues whatever size was asked for.
\<close>

definition numbered_issue :: "nat \<Rightarrow> issue" where
  "numbered_issue n =
     \<lparr>key = ''PROJ-1'' @ replicate n CHR ''0'',
      issue_fields = PObj [(''summary'', PStr ''Port the module''),
                           (''status'', PObj [(''name'', PStr ''Open'')] ''Open''),
                           (''assignee'', PNone)] ''<fields>''\<rparr>"

definition stocked_jira :: "nat \<Rightarrow> int \<Rightarrow> jira_client" where
  "stocked_jira stock reported =
     \<lparr>comments = (\<lambda>issue_key. []),
      search_total = (\<lambda>jql_query. reported),
      search_issues = (\<lambda>jql_query flds start_at max_results.
                         take (nat max_results) (drop (nat start_at) (map numbered_issue [0..<stock]))),
      create_issue = (\<lambda>new_fields. Inl RemoteError),
      add_issues_to_epic = (\<lambda>epic issue_keys. Inl RemoteError)\<rparr>"

definition trickling_jira :: jira_client where
  "trickling_jira =
     \<lparr>comments = (\<lambda>issue_key. []),
      search_total = (\<lambda>jql_query. 3),
      search_issues = (\<lambda>jql_query flds start_at max_results.
                         if 0 < max_results \<and> 0 \<le> start_at \<and> start_at < 3
                         then [numbered_issue (nat start_at)] else []),
      create_issue = (\<lambda>new_fields. Inl RemoteError),
      add_issues_to_epic = (\<lambda>epic issue_keys. Inl RemoteError)\<rparr>"


text \<open>An issue whose fields carry an attribute that is itself called \<open>key\<close>.\<close>

definition decoy_issue :: issue where
  "decoy_issue =
     \<lparr>key = ''PROJ-7'',
      issue_fields = PObj [(''key'', PObj [(''name'', PStr ''decoy'')] ''<decoy>''),
                           (''summary'', PStr ''Port the module'')] ''<fields>''\<rparr>"

section \<open>Verification: the comment filter\<close>

lemmas string_defs = lower_def lower_char_def strip_def strip_chars_def strip_quotes_def
  is_quote_def py_isspace_def split1_def split_on_def unpack2_def ascii_text_def

lemmas token_defs = token_field_def token_value_def token_excludes_def unparseable_def
  within_def str_le_def day_def author_displayName_def lowered_displayName_def

text \<open>\<open>contains\<close> is the substring relation, and \<open>str_less\<close> a strict total order.\<close>

lemma contains_iff: "contains sub s = (\<exists>pre post. s = pre @ sub @ post)"
proof (induction s)
  case Nil
  then show ?case by auto
next
  case (Cons c cs)
  have "(take (length sub) (c # cs) = sub) = (\<exists>post. c # cs = sub @ post)"
    by (metis append_eq_conv_conj append_take_drop_id)
  moreover have "(\<exists>pre post. c # cs = pre @ sub @ post)
      = ((\<exists>post. c # cs = sub @ post) \<or> (\<exists>pre post. cs = pre @ sub @ post))"
  proof
    assume "\<exists>pre post. c # cs = pre @ sub @ post"
    then obtain pre post where e: "c # cs = pre @ sub @ post" by blast
    show "(\<exists>post. c # cs = sub @ post) \<or> (\<exists>pre post. cs = pre @ sub @ post)"
    proof (cases pre)
      case Nil
      with e show ?thesis by auto
    next
      case (Cons p ps)
      with e have "cs = ps @ sub @ post" by simp
      then show ?thesis by blast
    qed
  next
    assume "(\<exists>post. c # cs = sub @ post) \<or> (\<exists>pre post. cs = pre @ sub @ post)"
    then show "\<exists>pre post. c # cs = pre @ sub @ post"
    proof
      assume "\<exists>post. c # cs = sub @ post"
      then obtain post where "c # cs = [] @ sub @ post" by auto
      then show ?thesis by blast
    next
      assume "\<exists>pre post. cs = pre @ sub @ post"
      then obtain pre post where "c # cs = (c # pre) @ sub @ post" by auto
      then show ?thesis by blast
    qed
  qed
  ultimately show ?case using Cons.IH by simp
qed

lemma str_less_irrefl: "\<not> str_less a a"
  by (induction a) auto

lemma str_less_total: "str_less a b \<or> a = b \<or> str_less b a"
proof (induction a b rule: str_less.induct)
  case (3 x xs y ys)
  have "(of_char x :: nat) < of_char y \<or> x = y \<or> (of_char y :: nat) < of_char x"
    by (metis linorder_less_linear of_char_eq_iff)
  with 3 show ?case by auto
qed (auto, (case_tac xs; simp)+)

lemma str_less_asym: "str_less a b \<Longrightarrow> \<not> str_less b a"
  by (induction a b rule: str_less.induct) auto

lemma not_within: "(\<not> within lo hi d) = (str_less d lo \<or> str_less hi d)"
  unfolding within_def str_le_def
  using str_less_total str_less_asym str_less_irrefl by blast

lemma check_filter_no_separator:
  "CHR '':'' \<notin> set f \<Longrightarrow> check_filter py f c = Inl ValueError"
  by (simp add: check_filter_def split1_def unpack2_def)

lemma check_filter_excludes: "(check_filter py f c = Inr True) = token_excludes py f c"
proof (cases "CHR '':'' \<in> set f")
  case False
  then show ?thesis by (simp add: check_filter_no_separator token_excludes_def)
next
  case True
  then show ?thesis
    by (auto simp: check_filter_def split1_def unpack2_def token_excludes_def token_field_def
        token_value_def Let_def split_on_def not_within day_def lowered_displayName_def
        split: sum.splits list.splits option.splits)
qed

lemma apply_filters_included:
  "fst (apply_filters py filters c) = (\<forall>f\<in>set filters. \<not> token_excludes py f c)"
  by (induction filters) (auto simp: check_filter_excludes [symmetric] split: sum.splits)

lemma filter_comments_fst:
  "fst (filter_comments py filters cs acc ws)
     = acc @ filter (\<lambda>c. \<forall>f\<in>set filters. \<not> token_excludes py f c) cs"
  by (induction cs arbitrary: acc ws) (simp_all add: apply_filters_included)

lemma filtered_comments_eq:
  "filtered_comments py filters cs = filter (\<lambda>c. \<forall>f\<in>set filters. \<not> token_excludes py f c) cs"
  by (simp add: filtered_comments_def filter_comments_fst)

lemma filtered_single:
  "(filtered_comments py [f] [c] = [c]) = (\<not> token_excludes py f c)"
  "(filtered_comments py [f] [c] = []) = token_excludes py f c"
  by (simp_all add: filtered_comments_eq)

lemma single_warning:
  "check_filter py f c = Inl e \<Longrightarrow> filter_warnings py [f] [c] = [Warning f e]"
  by (simp add: filter_warnings_def)

lemma unparseable_never_excludes: "unparseable py f \<Longrightarrow> \<not> token_excludes py f c"
  by (auto simp: unparseable_def token_excludes_def)

lemma filter_is_conjunction:
  "filtered_comments py filters cs
     = filtered_comments py (filter (\<lambda>f. \<not> unparseable py f) filters) cs"
proof -
  have "(\<forall>f\<in>set filters. \<not> token_excludes py f c)
          = (\<forall>f\<in>set (filter (\<lambda>f. \<not> unparseable py f) filters). \<not> token_excludes py f c)" for c
    using unparseable_never_excludes by auto
  then show ?thesis by (simp add: filtered_comments_eq)
qed

text \<open>
  Claim C1 fails on a token with an unknown field name. The token \<open>foo:bar\<close> has the
  separator and the field \<open>foo\<close>, which is none of author, text and date: the comment is
  kept, as the claim says, and no warning is written, where the claim says that such a
  token always produces one.
\<close>

theorem unknown_field_without_warning:
  "token_field ascii_text ''foo:bar'' = ''foo''
   \<and> filtered_comments ascii_text [''foo:bar''] [alice_comment] = [alice_comment]
   \<and> filter_warnings ascii_text [''foo:bar''] [alice_comment] = []"
proof -
  have "token_field ascii_text ''foo:bar'' = ''foo''"
    by (simp add: token_defs string_defs)
  moreover have "check_filter ascii_text ''foo:bar'' alice_comment = Inr False"
    by (simp add: check_filter_def string_defs)
  then have "filtered_comments ascii_text [''foo:bar''] [alice_comment] = [alice_comment]"
    "filter_warnings ascii_text [''foo:bar''] [alice_comment] = []"
    by (simp_all add: filter_warnings_def filtered_comments_def)
  ultimately show ?thesis by simp
qed

lemma faithful_lower: "ascii_faithful py \<Longrightarrow> is_ascii s \<Longrightarrow> str_lower py s = lower s"
  by (simp add: ascii_faithful_def)

lemma faithful_strip: "ascii_faithful py \<Longrightarrow> is_ascii s \<Longrightarrow> str_strip py s = strip s"
  by (simp add: ascii_faithful_def)

lemma ascii_text_faithful: "ascii_faithful ascii_text"
  by (simp add: ascii_faithful_def ascii_text_def)

lemma date_token_excludes:
  "CHR '':'' \<in> set f \<Longrightarrow> token_field py f = ''date'' \<Longrightarrow>
   token_excludes py f c =
     (if contains ''to'' (token_value py f) then
        (case split_acc ''to'' [] (token_value py f) of
           [lo, hi] \<Rightarrow> \<not> within (str_strip py lo) (str_strip py hi) (day c)
         | _ \<Rightarrow> False)
      else day c \<noteq> token_value py f)"
  by (simp add: token_excludes_def)

lemma date_token_malformed:
  assumes "CHR '':'' \<in> set f" "token_field py f = ''date''" "contains ''to'' (token_value py f)"
    and "\<forall>lo hi. split_acc ''to'' [] (token_value py f) \<noteq> [lo, hi]"
  shows "check_filter py f c = Inl ValueError"
  using assms
  by (auto simp: check_filter_def split1_def unpack2_def token_field_def token_value_def Let_def
      split_on_def split: list.splits)

lemma date_filter_range:
  assumes "CHR '':'' \<in> set f" "token_field py f = ''date''"
  shows "f \<in> set filters \<and> c \<in> set (filtered_comments py filters cs) \<longrightarrow>
        (if contains ''to'' (token_value py f)
         then (\<forall>lo hi. split_acc ''to'' [] (token_value py f) = [lo, hi]
                 \<longrightarrow> within (str_strip py lo) (str_strip py hi) (day c))
         else day c = token_value py f)"
    and "(filtered_comments py [f] [c] = [c])
         = (if contains ''to'' (token_value py f)
            then (case split_acc ''to'' [] (token_value py f) of
                    [lo, hi] \<Rightarrow> within (str_strip py lo) (str_strip py hi) (day c)
                  | _ \<Rightarrow> True)
            else day c = token_value py f)"
    and "contains ''to'' (token_value py f)
           \<and> (\<forall>lo hi. split_acc ''to'' [] (token_value py f) \<noteq> [lo, hi])
         \<longrightarrow> filtered_comments py [f] [c] = [c]
             \<and> filter_warnings py [f] [c] = [Warning f ValueError]"
proof -
  note ex = date_token_excludes [OF assms]
  show "(filtered_comments py [f] [c] = [c])
         = (if contains ''to'' (token_value py f)
            then (case split_acc ''to'' [] (token_value py f) of
                    [lo, hi] \<Rightarrow> within (str_strip py lo) (str_strip py hi) (day c)
                  | _ \<Rightarrow> True)
            else day c = token_value py f)"
    unfolding filtered_single ex by (simp split: list.splits)
  show "f \<in> set filters \<and> c \<in> set (filtered_comments py filters cs) \<longrightarrow>
        (if contains ''to'' (token_value py f)
         then (\<forall>lo hi. split_acc ''to'' [] (token_value py f) = [lo, hi]
                 \<longrightarrow> within (str_strip py lo) (str_strip py hi) (day c))
         else day c = token_value py f)"
  proof
    assume "f \<in> set filters \<and> c \<in> set (filtered_comments py filters cs)"
    then have "\<not> token_excludes py f c"
      by (simp add: filtered_comments_eq)
    then show "if contains ''to'' (token_value py f)
         then (\<forall>lo hi. split_acc ''to'' [] (token_value py f) = [lo, hi]
                 \<longrightarrow> within (str_strip py lo) (str_strip py hi) (day c))
         else day c = token_value py f"
      unfolding ex [of c] by (auto split: if_splits)
  qed
  show "contains ''to'' (token_value py f)
           \<and> (\<forall>lo hi. split_acc ''to'' [] (token_value py f) \<noteq> [lo, hi])
         \<longrightarrow> filtered_comments py [f] [c] = [c]
             \<and> filter_warnings py [f] [c] = [Warning f ValueError]"
  proof
    assume m: "contains ''to'' (token_value py f)
           \<and> (\<forall>lo hi. split_acc ''to'' [] (token_value py f) \<noteq> [lo, hi])"
    then have "check_filter py f c = Inl ValueError"
      using date_token_malformed [OF assms] by blast
    then show "filtered_comments py [f] [c] = [c]
             \<and> filter_warnings py [f] [c] = [Warning f ValueError]"
      by (simp add: filtered_comments_def filter_warnings_def)
  qed
qed

lemma january_token:
  assumes "ascii_faithful py"
  shows "token_field py ''date:2023-01-01 to 2023-01-31'' = ''date''"
    and "token_value py ''date:2023-01-01 to 2023-01-31'' = ''2023-01-01 to 2023-01-31''"
    and "str_strip py ''2023-01-01 '' = ''2023-01-01''"
    and "str_strip py '' 2023-01-31'' = ''2023-01-31''"
proof -
  have a: "is_ascii ''date''" "is_ascii ''2023-01-01 to 2023-01-31''" "is_ascii ''2023-01-01 ''"
    "is_ascii '' 2023-01-31''"
    by (simp_all add: is_ascii_def)
  show "token_field py ''date:2023-01-01 to 2023-01-31'' = ''date''"
    by (simp add: token_field_def faithful_lower [OF assms a(1)] faithful_strip [OF assms a(1)]
        string_defs)
  show "token_value py ''date:2023-01-01 to 2023-01-31'' = ''2023-01-01 to 2023-01-31''"
    by (simp add: token_value_def faithful_lower [OF assms a(2)] string_defs)
  show "str_strip py ''2023-01-01 '' = ''2023-01-01''"
    by (simp add: faithful_strip [OF assms a(3)] string_defs)
  show "str_strip py '' 2023-01-31'' = ''2023-01-31''"
    by (simp add: faithful_strip [OF assms a(4)] string_defs)
qed

lemma january_split:
  "split_acc ''to'' [] ''2023-01-01 to 2023-01-31'' = [''2023-01-01 '', '' 2023-01-31'']"
  by simp

lemma date_filter_january:
  assumes "ascii_faithful py"
  shows "(day c = ''2023-01-15'' \<longrightarrow> filtered_comments py [''date:2023-01-01 to 2023-01-31''] [c] = [c])
   \<and> (day c = ''2023-02-01'' \<longrightarrow> filtered_comments py [''date:2023-01-01 to 2023-01-31''] [c] = [])"
  by (auto simp: filtered_single token_excludes_def january_token [OF assms] january_split
      within_def str_le_def)

text \<open>
  Claim C4, as the code has it, for every lower-casing and trimming \<open>py\<close>. For a date token
  whose value splits at \<open>to\<close> into exactly two bounds, a comment is kept only if its day,
  the first ten characters of its timestamp, lies between the trimmed bounds, both
  included, in lexical order; alone in the list, the token keeps exactly those comments.
  A date token without \<open>to\<close> requires the day to equal the value. A value with \<open>to\<close> in
  it that splits into any other number of parts excludes nothing and writes a warning
  with ValueError. When \<open>py\<close> does on ASCII text what \<open>ascii_text\<close> does, the January
  token keeps a comment of 2023-01-15 and drops one of 2023-02-01.
\<close>

theorem date_filter:
  "(CHR '':'' \<in> set f \<and> token_field py f = ''date'' \<longrightarrow>
     (f \<in> set filters \<and> c \<in> set (filtered_comments py filters cs) \<longrightarrow>
        (if contains ''to'' (token_value py f)
         then (\<forall>lo hi. split_acc ''to'' [] (token_value py f) = [lo, hi]
                 \<longrightarrow> within (str_strip py lo) (str_strip py hi) (day c))
         else day c = token_value py f))
     \<and> (filtered_comments py [f] [c] = [c])
         = (if contains ''to'' (token_value py f)
            then (case split_acc ''to'' [] (token_value py f) of
                    [lo, hi] \<Rightarrow> within (str_strip py lo) (str_strip py hi) (day c)
                  | _ \<Rightarrow> True)
            else day c = token_value py f)
     \<and> (contains ''to'' (token_value py f)
           \<and> (\<forall>lo hi. split_acc ''to'' [] (token_value py f) \<noteq> [lo, hi])
         \<longrightarrow> filtered_comments py [f] [c] = [c]
             \<and> filter_warnings py [f] [c] = [Warning f ValueError]))
   \<and> (ascii_faithful py \<longrightarrow>
        (day c = ''2023-01-15''
           \<longrightarrow> filtered_comments py [''date:2023-01-01 to 2023-01-31''] [c] = [c])
        \<and> (day c = ''2023-02-01''
           \<longrightarrow> filtered_comments py [''date:2023-01-01 to 2023-01-31''] [c] = []))"
  using date_filter_range(1) [of f py filters c cs] date_filter_range(2,3) [of f py c]
    date_filter_january [of py c]
  by blast

text \<open>The theorem at the January range, at a single date and at a value with three cuts.\<close>

theorem date_filter_witness:
  "CHR '':'' \<in> set ''date:2023-01-01 to 2023-01-31''
   \<and> token_field ascii_text ''date:2023-01-01 to 2023-01-31'' = ''date''
   \<and> ''date:2023-01-01 to 2023-01-31'' \<in> set [''text:done'', ''date:2023-01-01 to 2023-01-31'']
   \<and> alice_comment \<in> set (filtered_comments ascii_text
                                [''text:done'', ''date:2023-01-01 to 2023-01-31'']
                                [alice_comment, bob_comment])
   \<and> within ''2023-01-01'' ''2023-01-31'' (day alice_comment)
   \<and> ascii_faithful ascii_text
   \<and> day alice_comment = ''2023-01-15''
   \<and> filtered_comments ascii_text [''date:2023-01-01 to 2023-01-31''] [alice_comment] = [alice_comment]
   \<and> day bob_comment = ''2023-02-01''
   \<and> filtered_comments ascii_text [''date:2023-01-01 to 2023-01-31''] [bob_comment] = []
   \<and> filtered_comments ascii_text [''date:2023-01-15''] [alice_comment] = [alice_comment]
   \<and> filtered_comments ascii_text [''date:2023-01-15''] [bob_comment] \<noteq> [bob_comment]
   \<and> contains ''to'' (token_value ascii_text ''date:tomorrow to today'')
   \<and> filtered_comments ascii_text [''date:tomorrow to today''] [bob_comment] = [bob_comment]
   \<and> filter_warnings ascii_text [''date:tomorrow to today''] [bob_comment]
       = [Warning ''date:tomorrow to today'' ValueError]"
proof -
  let ?py = ascii_text
  let ?f = "''date:2023-01-01 to 2023-01-31''"
  let ?g = "''date:tomorrow to today''"
  let ?fs = "[''text:done'', ?f]"
  note jan = january_token [OF ascii_text_faithful] january_split
  have sep: "CHR '':'' \<in> set ?f" "CHR '':'' \<in> set ''date:2023-01-15''" "CHR '':'' \<in> set ?g"
    by simp_all
  have single: "token_field ?py ''date:2023-01-15'' = ''date''"
    "token_value ?py ''date:2023-01-15'' = ''2023-01-15''"
    "token_field ?py ?g = ''date''" "token_value ?py ?g = ''tomorrow to today''"
    by (simp_all add: token_defs string_defs)
  have days: "day alice_comment = ''2023-01-15''" "day bob_comment = ''2023-02-01''"
    by (simp_all add: day_def alice_comment_def bob_comment_def)
  have "\<not> token_excludes ?py ''text:done'' alice_comment"
    by (simp add: token_defs string_defs alice_comment_def)
  moreover have "\<not> token_excludes ?py ?f alice_comment"
    by (simp add: token_excludes_def jan days within_def str_le_def)
  ultimately have mem: "alice_comment \<in> set (filtered_comments ?py ?fs [alice_comment, bob_comment])"
    by (simp add: filtered_comments_eq)
  have parts: "contains ''to'' ''2023-01-01 to 2023-01-31''" "\<not> contains ''to'' ''2023-01-15''"
    "contains ''to'' ''tomorrow to today''"
    by simp_all
  have three: "split_acc ''to'' [] ''tomorrow to today'' = ['''', ''morrow '', '' '', ''day'']"
    by simp
  from date_filter [of ?f ?py ?fs alice_comment "[alice_comment, bob_comment]"] sep jan mem parts
  have range: "within ''2023-01-01'' ''2023-01-31'' (day alice_comment)"
    by simp
  from date_filter [of ?f ?py "[]" alice_comment "[]"] days ascii_text_faithful
  have a: "filtered_comments ?py [?f] [alice_comment] = [alice_comment]"
    by simp
  from date_filter [of ?f ?py "[]" bob_comment "[]"] days ascii_text_faithful
  have b: "filtered_comments ?py [?f] [bob_comment] = []"
    by simp
  from date_filter [of "''date:2023-01-15''" ?py "[]" alice_comment "[]"] sep single parts days
  have c: "filtered_comments ?py [''date:2023-01-15''] [alice_comment] = [alice_comment]"
    by simp
  from date_filter [of "''date:2023-01-15''" ?py "[]" bob_comment "[]"] sep single parts days
  have d: "filtered_comments ?py [''date:2023-01-15''] [bob_comment] \<noteq> [bob_comment]"
    by simp
  from date_filter [of ?g ?py "[]" bob_comment "[]"] sep single parts three
  have e: "filtered_comments ?py [?g] [bob_comment] = [bob_comment]
           \<and> filter_warnings ?py [?g] [bob_comment] = [Warning ?g ValueError]"
    by simp
  from sep jan mem range days a b c d e single parts ascii_text_faithful show ?thesis by simp
qed

text \<open>
  Against C4 as stated: a value with \<open>to\<close> in it twice keeps a comment whose day lies
  after every bound named in it, and writes a warning.
\<close>

theorem date_range_with_two_separators:
  "contains ''to'' (token_value ascii_text ''date:2023-01-01 to 2023-01-15 to 2023-01-31'')
   \<and> split_acc ''to'' [] (token_value ascii_text ''date:2023-01-01 to 2023-01-15 to 2023-01-31'')
       = [''2023-01-01 '', '' 2023-01-15 '', '' 2023-01-31'']
   \<and> day bob_comment = ''2023-02-01''
   \<and> str_less ''2023-01-31'' (day bob_comment)
   \<and> filtered_comments ascii_text [''date:2023-01-01 to 2023-01-15 to 2023-01-31''] [bob_comment]
       = [bob_comment]
   \<and> filter_warnings ascii_text [''date:2023-01-01 to 2023-01-15 to 2023-01-31''] [bob_comment]
       = [Warning ''date:2023-01-01 to 2023-01-15 to 2023-01-31'' ValueError]"
proof -
  let ?f = "''date:2023-01-01 to 2023-01-15 to 2023-01-31''"
  have v: "token_value ascii_text ?f = ''2023-01-01 to 2023-01-15 to 2023-01-31''"
    by (simp add: token_defs string_defs)
  have p: "split_acc ''to'' [] ''2023-01-01 to 2023-01-15 to 2023-01-31''
             = [''2023-01-01 '', '' 2023-01-15 '', '' 2023-01-31'']"
    by simp
  have d: "day bob_comment = ''2023-02-01''"
    by (simp add: day_def bob_comment_def)
  have "check_filter ascii_text ?f bob_comment = Inl ValueError"
    by (simp add: check_filter_def string_defs)
  then have "filtered_comments ascii_text [?f] [bob_comment] = [bob_comment]"
    "filter_warnings ascii_text [?f] [bob_comment] = [Warning ?f ValueError]"
    by (simp_all add: filtered_comments_def filter_warnings_def)
  with v p d show ?thesis by simp
qed

lemma author_token_excludes:
  "CHR '':'' \<in> set f \<Longrightarrow> token_field py f = ''author'' \<Longrightarrow>
   token_excludes py f c =
     (case author_displayName c of
        Inr (Some n) \<Rightarrow> \<not> contains (token_value py f) (str_lower py n)
      | _ \<Rightarrow> False)"
  by (simp add: token_excludes_def)

lemma check_filter_author_unnamed:
  "CHR '':'' \<in> set f \<Longrightarrow> token_field py f = ''author''
     \<Longrightarrow> author_displayName c = Inl AttributeError \<or> author_displayName c = Inr None
     \<Longrightarrow> check_filter py f c = Inl AttributeError"
  by (auto simp: check_filter_def split1_def unpack2_def token_field_def Let_def
      lowered_displayName_def)

text \<open>
  Claim C5, as the code has it, for every lower-casing and trimming \<open>py\<close>. For an author
  token and a comment whose display name is a string, the comment is excluded whenever
  the value of the token, lower-cased and without its quotes, does not occur in the
  lower-cased display name; alone in the list, the token keeps the comment exactly when
  the value occurs. For a comment whose display name is missing or \<open>None\<close> the test
  raises AttributeError, which is caught: the token writes a warning and does not
  exclude the comment.
\<close>

theorem author_filter:
  "CHR '':'' \<in> set f \<and> token_field py f = ''author'' \<longrightarrow>
     (\<forall>n. author_displayName c = Inr (Some n) \<and> \<not> contains (token_value py f) (str_lower py n)
            \<and> f \<in> set filters
        \<longrightarrow> c \<notin> set (filtered_comments py filters cs))
     \<and> (\<forall>n. author_displayName c = Inr (Some n)
           \<longrightarrow> (filtered_comments py [f] [c] = [c]) = contains (token_value py f) (str_lower py n))
     \<and> (author_displayName c = Inl AttributeError \<or> author_displayName c = Inr None
           \<longrightarrow> filtered_comments py [f] [c] = [c]
               \<and> filter_warnings py [f] [c] = [Warning f AttributeError])"
proof (intro impI conjI allI)
  assume a: "CHR '':'' \<in> set f \<and> token_field py f = ''author''"
  then have ex: "token_excludes py f c
      = (case author_displayName c of
           Inr (Some n) \<Rightarrow> \<not> contains (token_value py f) (str_lower py n)
         | _ \<Rightarrow> False)"
    by (simp add: author_token_excludes)
  show "c \<notin> set (filtered_comments py filters cs)"
    if "author_displayName c = Inr (Some n) \<and> \<not> contains (token_value py f) (str_lower py n)
          \<and> f \<in> set filters" for n
    using that ex by (auto simp: filtered_comments_eq)
  show "(filtered_comments py [f] [c] = [c]) = contains (token_value py f) (str_lower py n)"
    if "author_displayName c = Inr (Some n)" for n
    using that ex by (simp add: filtered_single)
  assume n: "author_displayName c = Inl AttributeError \<or> author_displayName c = Inr None"
  with ex show "filtered_comments py [f] [c] = [c]"
    by (auto simp: filtered_single)
  from a n have "check_filter py f c = Inl AttributeError"
    by (simp add: check_filter_author_unnamed)
  then show "filter_warnings py [f] [c] = [Warning f AttributeError]"
    by (rule single_warning)
qed

text \<open>
  The theorem at a name that does not match, one that does, a missing one and one that
  is \<open>None\<close>.
\<close>

theorem author_filter_witness:
  "CHR '':'' \<in> set ''author:ALICE'' \<and> token_field ascii_text ''author:ALICE'' = ''author''
   \<and> author_displayName bob_comment = Inr (Some ''Bob Stone'')
   \<and> \<not> contains (token_value ascii_text ''author:ALICE'') (str_lower ascii_text ''Bob Stone'')
   \<and> ''author:ALICE'' \<in> set [''text:o'', ''author:ALICE'']
   \<and> bob_comment \<notin> set (filtered_comments ascii_text [''text:o'', ''author:ALICE'']
                              [alice_comment, bob_comment])
   \<and> author_displayName alice_comment = Inr (Some ''Alice Smith'')
   \<and> filtered_comments ascii_text [''author:ALICE''] [alice_comment] = [alice_comment]
   \<and> author_displayName anonymous_comment = Inl AttributeError
   \<and> filtered_comments ascii_text [''author:ALICE''] [anonymous_comment] = [anonymous_comment]
   \<and> filter_warnings ascii_text [''author:ALICE''] [anonymous_comment]
       = [Warning ''author:ALICE'' AttributeError]
   \<and> author_displayName unnamed_comment = Inr None
   \<and> filtered_comments ascii_text [''author:ALICE''] [unnamed_comment] = [unnamed_comment]"
proof -
  let ?py = ascii_text
  let ?f = "''author:ALICE''"
  have tok: "CHR '':'' \<in> set ?f" "token_field ?py ?f = ''author''" "token_value ?py ?f = ''alice''"
    by code_simp+
  have names: "author_displayName bob_comment = Inr (Some ''Bob Stone'')"
    "author_displayName alice_comment = Inr (Some ''Alice Smith'')"
    "author_displayName anonymous_comment = Inl AttributeError"
    "author_displayName unnamed_comment = Inr None"
    by (simp_all add: author_displayName_def alice_comment_def bob_comment_def
        anonymous_comment_def unnamed_comment_def)
  have sub: "\<not> contains ''alice'' (str_lower ?py ''Bob Stone'')"
    "contains ''alice'' (str_lower ?py ''Alice Smith'')"
    by code_simp+
  from author_filter [of ?f ?py bob_comment "[''text:o'', ?f]" "[alice_comment, bob_comment]"]
    tok names sub
  have 1: "bob_comment \<notin> set (filtered_comments ?py [''text:o'', ?f] [alice_comment, bob_comment])"
    by simp
  from author_filter [of ?f ?py alice_comment "[]" "[]"] tok names sub
  have 2: "filtered_comments ?py [?f] [alice_comment] = [alice_comment]"
    by simp
  from author_filter [of ?f ?py anonymous_comment "[]" "[]"] tok names
  have 3: "filtered_comments ?py [?f] [anonymous_comment] = [anonymous_comment]
           \<and> filter_warnings ?py [?f] [anonymous_comment] = [Warning ?f AttributeError]"
    by simp
  from author_filter [of ?f ?py unnamed_comment "[]" "[]"] tok names
  have 4: "filtered_comments ?py [?f] [unnamed_comment] = [unnamed_comment]"
    by simp
  from tok names sub 1 2 3 4 show ?thesis by simp
qed


section \<open>Verification: the returned comments\<close>

lemma cap_comments_selected:
  "cap_comments max_results (filtered_comments py filters cs)
     = selected_comments py max_results filters cs"
  by (simp add: cap_comments_def selected_comments_def)

lemma make_comment_data_cases:
  "make_comment_data c
     = (if has_displayName c
        then Inr \<lparr>data_id = comment_id c, data_author = shown_author c,
                  data_date = take 19 (created c), data_body = body c\<rparr>
        else Inl AttributeError)"
  by (simp add: make_comment_data_def author_displayName_def has_displayName_def shown_author_def
      split: option.splits name_attr.splits)

lemma comment_row_expected:
  "comment_row_of fmt \<lparr>data_id = comment_id c, data_author = shown_author c,
                       data_date = take 19 (created c), data_body = body c\<rparr>
     = expected_entry fmt c"
  by (simp add: comment_row_of_def expected_entry_def)

lemma format_comments_eq:
  "format_comments fmt cs acc
     = (if list_all has_displayName cs then Inr (acc @ map (expected_entry fmt) cs)
        else Inl AttributeError)"
  by (induction cs arbitrary: acc) (simp_all add: make_comment_data_cases comment_row_expected)

lemma get_ticket_comments_returned:
  "returned (get_ticket_comments py jira issue_key filters max_results fmt)
     = (if list_all has_displayName (selected_comments py max_results filters (comments jira issue_key))
        then Inr (map (expected_entry fmt)
                    (selected_comments py max_results filters (comments jira issue_key)),
                  comments_output issue_key fmt
                    (map (expected_entry fmt)
                       (selected_comments py max_results filters (comments jira issue_key))))
        else Inl AttributeError)"
  by (simp add: get_ticket_comments_def Let_def cap_comments_selected [symmetric]
      filtered_comments_def format_comments_eq)

lemma alice_token:
  "\<not> token_excludes ascii_text ''author:alice'' alice_comment"
  "token_excludes ascii_text ''author:alice'' bob_comment"
  "\<not> token_excludes ascii_text ''author:alice'' unnamed_comment"
  "\<not> token_excludes ascii_text ''author:alice'' anonymous_comment"
  by code_simp+


lemma example_has_displayName:
  "has_displayName alice_comment" "has_displayName bob_comment" "has_displayName unnamed_comment"
  "\<not> has_displayName anonymous_comment"
  by (simp_all add: has_displayName_def alice_comment_def bob_comment_def unnamed_comment_def
      anonymous_comment_def)

text \<open>
  Against C5 as stated: a comment whose display name is \<open>None\<close> passes the token
  \<open>author:alice\<close> and is among the entries returned, with the author \<open>None\<close>. A comment
  whose author has no display name attribute passes the filter as well; the call then
  raises AttributeError while it builds the entries, and returns nothing.
\<close>

theorem author_unnamed_not_excluded:
  "author_displayName unnamed_comment = Inr None
   \<and> returned (get_ticket_comments ascii_text named_jira ''PROJ-1'' [''author:alice''] 0 ''json'')
       = Inr ([DataRow \<lparr>data_id = ''10001'', data_author = Some ''Alice Smith'',
                         data_date = ''2023-01-15T09:30:00'', data_body = ''Deployment is done''\<rparr>,
               DataRow \<lparr>data_id = ''10004'', data_author = None,
                         data_date = ''2023-01-21T11:45:00'', data_body = ''Fixed upstream''\<rparr>],
              JsonFile ''PROJ-1_comments.json''
                [DataRow \<lparr>data_id = ''10001'', data_author = Some ''Alice Smith'',
                           data_date = ''2023-01-15T09:30:00'', data_body = ''Deployment is done''\<rparr>,
                 DataRow \<lparr>data_id = ''10004'', data_author = None,
                           data_date = ''2023-01-21T11:45:00'', data_body = ''Fixed upstream''\<rparr>])
   \<and> author_displayName anonymous_comment = Inl AttributeError
   \<and> filtered_comments ascii_text [''author:alice''] [anonymous_comment] = [anonymous_comment]
   \<and> returned (get_ticket_comments ascii_text example_jira ''PROJ-1'' [''author:alice''] 0 ''json'')
       = Inl AttributeError"
proof -
  have names: "author_displayName unnamed_comment = Inr None"
    "author_displayName anonymous_comment = Inl AttributeError"
    by (simp_all add: author_displayName_def unnamed_comment_def anonymous_comment_def)
  have sel: "selected_comments ascii_text 0 [''author:alice''] (comments named_jira ''PROJ-1'')
               = [alice_comment, unnamed_comment]"
    "selected_comments ascii_text 0 [''author:alice''] (comments example_jira ''PROJ-1'')
               = [alice_comment, unnamed_comment, anonymous_comment]"
    by (simp_all add: selected_comments_def filtered_comments_eq named_jira_def example_jira_def
        alice_token)
  have rows: "expected_entry ''json'' alice_comment
      = DataRow \<lparr>data_id = ''10001'', data_author = Some ''Alice Smith'',
                  data_date = ''2023-01-15T09:30:00'', data_body = ''Deployment is done''\<rparr>"
    "expected_entry ''json'' unnamed_comment
      = DataRow \<lparr>data_id = ''10004'', data_author = None,
                  data_date = ''2023-01-21T11:45:00'', data_body = ''Fixed upstream''\<rparr>"
    by (simp_all add: expected_entry_def shown_author_def alice_comment_def unnamed_comment_def)
  have 1: "returned (get_ticket_comments ascii_text named_jira ''PROJ-1'' [''author:alice''] 0 ''json'')
       = Inr ([expected_entry ''json'' alice_comment, expected_entry ''json'' unnamed_comment],
              JsonFile ''PROJ-1_comments.json''
                [expected_entry ''json'' alice_comment, expected_entry ''json'' unnamed_comment])"
    by (simp add: get_ticket_comments_returned sel example_has_displayName comments_output_def)
  have 2: "returned (get_ticket_comments ascii_text example_jira ''PROJ-1'' [''author:alice''] 0 ''json'')
       = Inl AttributeError"
    by (simp add: get_ticket_comments_returned sel example_has_displayName)
  have 3: "filtered_comments ascii_text [''author:alice''] [anonymous_comment] = [anonymous_comment]"
    by (simp add: filtered_single alice_token)
  from names 1 2 3 show ?thesis unfolding rows by simp
qed



section \<open>Verification: creating a ticket\<close>

text \<open>
  Claim C9, as the code has it. When the description file does not exist,
  \<open>create_jira_ticket\<close> raises FileNotFoundError and has sent no call at all. When the
  path exists and reading it fails, that error is raised, again before any call. When
  the file is read, the first call sent is the create call, with the text of the file as
  description; the only call that can follow is the epic link, and it follows only for a
  non-empty epic key and a create call that succeeded, in which case it does follow, for
  the key of the new issue.
\<close>

theorem create_checks_file_first:
  "(files description_file_path = None \<longrightarrow>
      create_jira_ticket files jira project_key summary_text description_file_path priority_name
          epic_key issue_type
        = \<lparr>remote_calls = [], created_issue = Inl FileNotFoundError\<rparr>)
   \<and> (\<forall>e. files description_file_path = Some (Inl e) \<longrightarrow>
          create_jira_ticket files jira project_key summary_text description_file_path
              priority_name epic_key issue_type
            = \<lparr>remote_calls = [], created_issue = Inl e\<rparr>)
   \<and> (\<forall>text new_fields.
         files description_file_path = Some (Inr text)
           \<and> new_fields = \<lparr>project = project_key, summary = summary_text, description = text,
                            issuetype = issue_type, priority = priority_name\<rparr>
         \<longrightarrow> (\<exists>rest.
                remote_calls (create_jira_ticket files jira project_key summary_text
                                description_file_path priority_name epic_key issue_type)
                  = CreateIssue new_fields # rest
                \<and> (rest = []
                    \<or> (\<exists>epic issue_key. epic_key = Some epic \<and> epic \<noteq> []
                          \<and> create_issue jira new_fields = Inr issue_key
                          \<and> rest = [AddIssuesToEpic epic [issue_key]])))
             \<and> (\<forall>epic issue_key.
                   epic_key = Some epic \<and> epic \<noteq> [] \<and> create_issue jira new_fields = Inr issue_key
                   \<longrightarrow> remote_calls (create_jira_ticket files jira project_key summary_text
                                       description_file_path priority_name epic_key issue_type)
                         = [CreateIssue new_fields, AddIssuesToEpic epic [issue_key]]))"
  by (auto simp: create_jira_ticket_def Let_def split: option.splits sum.splits)

text \<open>The theorem at a missing path, at a directory and at a file, with an epic key.\<close>

theorem create_checks_file_first_witness:
  "example_files ''missing.md'' = None
   \<and> create_jira_ticket example_files example_jira ''PROJ'' ''Update parser'' ''missing.md''
         ''Medium'' (Some ''PROJ-1'') ''Task''
       = \<lparr>remote_calls = [], created_issue = Inl FileNotFoundError\<rparr>
   \<and> example_files ''notes'' = Some (Inl IsADirectoryError)
   \<and> create_jira_ticket example_files example_jira ''PROJ'' ''Update parser'' ''notes''
         ''Medium'' (Some ''PROJ-1'') ''Task''
       = \<lparr>remote_calls = [], created_issue = Inl IsADirectoryError\<rparr>
   \<and> example_files ''notes/description.md'' = Some (Inr ''Port the module.'')
   \<and> create_issue example_jira
         \<lparr>project = ''PROJ'', summary = ''Update parser'', description = ''Port the module.'',
            issuetype = ''Task'', priority = ''Medium''\<rparr> = Inr ''PROJ-7''
   \<and> remote_calls (create_jira_ticket example_files example_jira ''PROJ'' ''Update parser''
                     ''notes/description.md'' ''Medium'' (Some ''PROJ-1'') ''Task'')
       = [CreateIssue \<lparr>project = ''PROJ'', summary = ''Update parser'',
                        description = ''Port the module.'', issuetype = ''Task'',
                        priority = ''Medium''\<rparr>,
          AddIssuesToEpic ''PROJ-1'' [''PROJ-7'']]"
proof -
  have f: "example_files ''missing.md'' = None"
    "example_files ''notes'' = Some (Inl IsADirectoryError)"
    "example_files ''notes/description.md'' = Some (Inr ''Port the module.'')"
    by (simp_all add: example_files_def)
  have c: "create_issue example_jira
         \<lparr>project = ''PROJ'', summary = ''Update parser'', description = ''Port the module.'',
            issuetype = ''Task'', priority = ''Medium''\<rparr> = Inr ''PROJ-7''"
    by (simp add: example_jira_def)
  note inst = create_checks_file_first [of example_files _ example_jira "''PROJ''"
      "''Update parser''" "''Medium''" "Some ''PROJ-1''" "''Task''"]
  from inst [of "''missing.md''", THEN conjunct1] f
  have 1: "create_jira_ticket example_files example_jira ''PROJ'' ''Update parser'' ''missing.md''
         ''Medium'' (Some ''PROJ-1'') ''Task''
       = \<lparr>remote_calls = [], created_issue = Inl FileNotFoundError\<rparr>"
    by blast
  from inst [of "''notes''", THEN conjunct2, THEN conjunct1] f
  have 2: "create_jira_ticket example_files example_jira ''PROJ'' ''Update parser'' ''notes''
         ''Medium'' (Some ''PROJ-1'') ''Task''
       = \<lparr>remote_calls = [], created_issue = Inl IsADirectoryError\<rparr>"
    by blast
  from inst [of "''notes/description.md''", THEN conjunct2, THEN conjunct2] f c
  have 3: "remote_calls (create_jira_ticket example_files example_jira ''PROJ'' ''Update parser''
                     ''notes/description.md'' ''Medium'' (Some ''PROJ-1'') ''Task'')
       = [CreateIssue \<lparr>project = ''PROJ'', summary = ''Update parser'',
                        description = ''Port the module.'', issuetype = ''Task'',
                        priority = ''Medium''\<rparr>,
          AddIssuesToEpic ''PROJ-1'' [''PROJ-7'']]"
    by simp
  from f c 1 2 3 show ?thesis by simp
qed

text \<open>
  Against C9 as stated: the path of a directory exists, and no create call is sent for
  it: opening it raises an error first.
\<close>

theorem existing_directory_sends_nothing:
  "example_files ''notes'' = Some (Inl IsADirectoryError)
   \<and> create_jira_ticket example_files example_jira ''PROJ'' ''Update parser'' ''notes''
         ''Medium'' None ''Task''
       = \<lparr>remote_calls = [], created_issue = Inl IsADirectoryError\<rparr>"
  by (simp add: example_files_def create_jira_ticket_def)

section \<open>Verification: paginated fetching\<close>

lemma run_jql_unfold:
  "items_per_batch \<noteq> 0 \<Longrightarrow>
   run_jql jira q f max_results items_per_batch fmt =
     \<lparr>requests = snd (run_jql_loop jira q f max_results items_per_batch
                       (effective_total jira q max_results) 0 [] [SearchCount q]),
      finished = Inr (fst (run_jql_loop jira q f max_results items_per_batch
                       (effective_total jira q max_results) 0 [] [SearchCount q]),
                      render_jql f fmt (fst (run_jql_loop jira q f max_results items_per_batch
                       (effective_total jira q max_results) 0 [] [SearchCount q])))\<rparr>"
  by (simp add: run_jql_def effective_total_def Let_def)

lemma run_jql_loop_capped:
  "0 < max_results \<Longrightarrow> int (length total_issues) < max_results
     \<Longrightarrow> int (length (fst (run_jql_loop jira q f max_results b cnt start_at total_issues sent)))
           \<le> max_results"
proof (induction jira q f max_results b cnt start_at total_issues sent rule: run_jql_loop.induct)
  case (1 jira q f max_results b cnt start_at total_issues sent)
  show ?case
    using "1.prems" "1.IH"
    by (subst run_jql_loop.simps) (auto simp: Let_def)
qed

lemma run_jql_loop_unfold:
  "run_jql_loop jira q f max_results b cnt start_at total_issues sent =
     (if start_at < cnt then
        if search_issues jira q f start_at (min b (cnt - start_at)) = []
        then (total_issues, sent @ [Search q f start_at (min b (cnt - start_at))])
        else if max_results > 0
                \<and> int (length (total_issues @ search_issues jira q f start_at (min b (cnt - start_at))))
                    \<ge> max_results
        then (take (nat max_results)
                (total_issues @ search_issues jira q f start_at (min b (cnt - start_at))),
              sent @ [Search q f start_at (min b (cnt - start_at))])
        else run_jql_loop jira q f max_results b cnt
               (start_at + int (length (search_issues jira q f start_at (min b (cnt - start_at)))))
               (total_issues @ search_issues jira q f start_at (min b (cnt - start_at)))
               (sent @ [Search q f start_at (min b (cnt - start_at))])
      else (total_issues, sent))"
  by (subst run_jql_loop.simps) (simp add: Let_def)

lemma run_jql_loop_done:
  "\<not> start_at < cnt \<Longrightarrow>
   run_jql_loop jira q f max_results b cnt start_at total_issues sent = (total_issues, sent)"
  by (subst run_jql_loop_unfold) auto

lemma run_jql_loop_empty:
  "start_at < cnt \<Longrightarrow> search_issues jira q f start_at (min b (cnt - start_at)) = [] \<Longrightarrow>
   run_jql_loop jira q f max_results b cnt start_at total_issues sent
     = (total_issues, sent @ [Search q f start_at (min b (cnt - start_at))])"
  by (subst run_jql_loop_unfold) auto

lemma run_jql_loop_trim:
  "start_at < cnt \<Longrightarrow> search_issues jira q f start_at (min b (cnt - start_at)) \<noteq> [] \<Longrightarrow>
   max_results > 0
     \<and> int (length (total_issues @ search_issues jira q f start_at (min b (cnt - start_at))))
         \<ge> max_results \<Longrightarrow>
   run_jql_loop jira q f max_results b cnt start_at total_issues sent
     = (take (nat max_results)
          (total_issues @ search_issues jira q f start_at (min b (cnt - start_at))),
        sent @ [Search q f start_at (min b (cnt - start_at))])"
  by (subst run_jql_loop_unfold) auto

lemma run_jql_loop_next:
  "start_at < cnt \<Longrightarrow> search_issues jira q f start_at (min b (cnt - start_at)) \<noteq> [] \<Longrightarrow>
   \<not> (max_results > 0
       \<and> int (length (total_issues @ search_issues jira q f start_at (min b (cnt - start_at))))
           \<ge> max_results) \<Longrightarrow>
   run_jql_loop jira q f max_results b cnt start_at total_issues sent
     = run_jql_loop jira q f max_results b cnt
         (start_at + int (length (search_issues jira q f start_at (min b (cnt - start_at)))))
         (total_issues @ search_issues jira q f start_at (min b (cnt - start_at)))
         (sent @ [Search q f start_at (min b (cnt - start_at))])"
  by (subst run_jql_loop_unfold) auto

lemma run_jql_loop_sent:
  "\<exists>batch. snd (run_jql_loop jira q f max_results b cnt start_at total_issues sent) = sent @ batch
     \<and> list_all is_search batch"
proof (induction jira q f max_results b cnt start_at total_issues sent rule: run_jql_loop.induct)
  case (1 jira q f max_results b cnt start_at total_issues sent)
  let ?n = "min b (cnt - start_at)"
  let ?issues = "search_issues jira q f start_at ?n"
  let ?loop = "run_jql_loop jira q f max_results b cnt start_at total_issues sent"
  let ?cap = "max_results > 0 \<and> int (length (total_issues @ ?issues)) \<ge> max_results"
  have one: "list_all is_search [Search q f start_at ?n]" by simp
  consider (stop) "\<not> start_at < cnt" | (empty) "start_at < cnt" "?issues = []"
    | (trim) "start_at < cnt" "?issues \<noteq> []" "?cap"
    | (go) "start_at < cnt" "?issues \<noteq> []" "\<not> ?cap"
    by blast
  then show ?case
  proof cases
    case stop
    then have "snd ?loop = sent @ []" by (simp add: run_jql_loop_done)
    then show ?thesis by (intro exI [of _ "[]"]) simp
  next
    case empty
    then have "snd ?loop = sent @ [Search q f start_at ?n]" by (simp add: run_jql_loop_empty)
    with one show ?thesis by blast
  next
    case trim
    then have "snd ?loop = sent @ [Search q f start_at ?n]" by (simp add: run_jql_loop_trim)
    with one show ?thesis by blast
  next
    case go
    from "1.IH" [OF go(1) refl refl refl go(2,3)] obtain batch where
      "snd ?loop = (sent @ [Search q f start_at ?n]) @ batch" "list_all is_search batch"
      unfolding run_jql_loop_next [OF go] by blast
    then have "snd ?loop = sent @ (Search q f start_at ?n # batch)
               \<and> list_all is_search (Search q f start_at ?n # batch)"
      by simp
    then show ?thesis by blast
  qed
qed

lemma ceil_div: "0 < (b::int) \<Longrightarrow> c div b + (if c mod b \<noteq> 0 then 1 else 0) = (c + b - 1) div b"
proof -
  assume b: "0 < b"
  have c: "c = b * (c div b) + c mod b" by simp
  have m: "0 \<le> c mod b" "c mod b < b" using b by simp_all
  show ?thesis
  proof (cases "c mod b = 0")
    case True
    have "c + b - 1 = (b - 1) + b * (c div b)" using c True by simp
    then have "(c + b - 1) div b = c div b + (b - 1) div b"
      using b by (simp only: div_mult_self2) 
    with True b show ?thesis by simp
  next
    case False
    have "c + b - 1 = (c mod b - 1) + b * (c div b + 1)"
      using c by (simp add: algebra_simps)
    then have "(c + b - 1) div b = (c div b + 1) + (c mod b - 1) div b"
      using b by (simp only: div_mult_self2) 
    moreover have "(c mod b - 1) div b = 0" using m False by simp
    ultimately show ?thesis using False by simp
  qed
qed

lemma div_step: "0 < (b::int) \<Longrightarrow> (x + b) div b = x div b + 1"
  by (simp add: div_add_self2)

lemma run_jql_loop_count:
  "0 < b \<Longrightarrow>
   (\<forall>s n. 0 \<le> s \<and> 0 < n \<and> s + n \<le> cnt
      \<longrightarrow> search_issues jira q f s n = [] \<or> int (length (search_issues jira q f s n)) = n)
   \<Longrightarrow> 0 \<le> start_at
   \<Longrightarrow> int (length (snd (run_jql_loop jira q f max_results b cnt start_at total_issues sent)))
         \<le> int (length sent) + (if start_at < cnt then (cnt - start_at + b - 1) div b else 0)"
proof (induction jira q f max_results b cnt start_at total_issues sent rule: run_jql_loop.induct)
  case (1 jira q f max_results b cnt start_at total_issues sent)
  let ?n = "min b (cnt - start_at)"
  let ?issues = "search_issues jira q f start_at ?n"
  let ?loop = "run_jql_loop jira q f max_results b cnt start_at total_issues sent"
  let ?cap = "max_results > 0 \<and> int (length (total_issues @ ?issues)) \<ge> max_results"
  have one: "1 \<le> (cnt - start_at + b - 1) div b" if "start_at < cnt"
  proof -
    have "b \<le> cnt - start_at + b - 1" using that by simp
    then have "b div b \<le> (cnt - start_at + b - 1) div b"
      using "1.prems"(1) by (rule zdiv_mono1)
    then show ?thesis using "1.prems"(1) by simp
  qed
  consider (stop) "\<not> start_at < cnt" | (empty) "start_at < cnt" "?issues = []"
    | (trim) "start_at < cnt" "?issues \<noteq> []" "?cap"
    | (go) "start_at < cnt" "?issues \<noteq> []" "\<not> ?cap"
    by blast
  then show ?case
  proof cases
    case stop
    then show ?thesis by (simp add: run_jql_loop_done)
  next
    case empty
    with one show ?thesis by (simp add: run_jql_loop_empty)
  next
    case trim
    with one show ?thesis by (simp add: run_jql_loop_trim)
  next
    case go
    have n: "0 < ?n" using go(1) "1.prems"(1) by simp
    have "start_at + ?n \<le> cnt" by simp
    with "1.prems"(2,3) go(2) n have len: "int (length ?issues) = ?n" by blast
    have ih: "int (length (snd ?loop))
           \<le> int (length (sent @ [Search q f start_at ?n])) +
             (if start_at + int (length ?issues) < cnt
              then (cnt - (start_at + int (length ?issues)) + b - 1) div b else 0)"
      unfolding run_jql_loop_next [OF go]
      using "1.prems"(3) by (intro "1.IH" [OF go(1) refl refl refl go(2,3) "1.prems"(1,2)]) simp
    have step: "(if start_at + ?n < cnt then (cnt - (start_at + ?n) + b - 1) div b else 0) + 1
                  \<le> (cnt - start_at + b - 1) div b"
    proof (cases "start_at + ?n < cnt")
      case False
      then show ?thesis using one [OF go(1)] by simp
    next
      case True
      then have nb: "?n = b" by (simp add: min_def split: if_splits)
      have "(cnt - start_at + b - 1) = (cnt - (start_at + b) + b - 1) + b" by simp
      then have "(cnt - start_at + b - 1) div b = (cnt - (start_at + b) + b - 1) div b + 1"
        using div_step [OF "1.prems"(1), of "cnt - (start_at + b) + b - 1"] by (simp only:)
      with True nb show ?thesis by simp
    qed
    define r where "r = (if start_at + ?n < cnt then (cnt - (start_at + ?n) + b - 1) div b else 0)"
    from ih have "int (length (snd ?loop)) \<le> int (length sent) + 1 + r"
      unfolding len r_def by simp
    moreover from step have "r + 1 \<le> (cnt - start_at + b - 1) div b"
      unfolding r_def .
    ultimately have "int (length (snd ?loop)) \<le> int (length sent) + (cnt - start_at + b - 1) div b"
      by linarith
    with go(1) show ?thesis by simp
  qed
qed

lemma run_jql_loop_empty_page:
  "int (length total_issues) = start_at
   \<Longrightarrow> \<forall>s n. Search q f s n \<in> set sent \<longrightarrow> search_issues jira q f s n \<noteq> []
   \<Longrightarrow> Search q f s n \<in> set (snd (run_jql_loop jira q f max_results b cnt start_at total_issues sent))
   \<Longrightarrow> search_issues jira q f s n = []
   \<Longrightarrow> int (length (fst (run_jql_loop jira q f max_results b cnt start_at total_issues sent))) < cnt
       \<and> last (snd (run_jql_loop jira q f max_results b cnt start_at total_issues sent)) = Search q f s n"
proof (induction jira q f max_results b cnt start_at total_issues sent rule: run_jql_loop.induct)
  case (1 jira q f max_results b cnt start_at total_issues sent)
  let ?n = "min b (cnt - start_at)"
  let ?issues = "search_issues jira q f start_at ?n"
  let ?loop = "run_jql_loop jira q f max_results b cnt start_at total_issues sent"
  show ?case
  proof (cases "start_at < cnt")
    case False
    then have "?loop = (total_issues, sent)" by (subst run_jql_loop.simps) simp
    with "1.prems" show ?thesis by auto
  next
    case lt: True
    show ?thesis
    proof (cases "?issues = []")
      case True
      then have "?loop = (total_issues, sent @ [Search q f start_at ?n])"
        using lt by (subst run_jql_loop.simps) (simp add: Let_def)
      with "1.prems" lt True show ?thesis by auto
    next
      case ne: False
      show ?thesis
      proof (cases "max_results > 0 \<and> int (length (total_issues @ ?issues)) \<ge> max_results")
        case True
        then have "?loop = (take (nat max_results) (total_issues @ ?issues), sent @ [Search q f start_at ?n])"
          using lt ne by (subst run_jql_loop.simps) (simp add: Let_def)
        with "1.prems" ne show ?thesis by auto
      next
        case False
        then have eq: "?loop = run_jql_loop jira q f max_results b cnt (start_at + int (length ?issues))
                       (total_issues @ ?issues) (sent @ [Search q f start_at ?n])"
          using lt ne by (subst run_jql_loop.simps) (auto simp: Let_def)
        have inv: "\<forall>s n. Search q f s n \<in> set (sent @ [Search q f start_at ?n])
                      \<longrightarrow> search_issues jira q f s n \<noteq> []"
          using "1.prems"(2) ne by auto
        have len: "int (length (total_issues @ ?issues)) = start_at + int (length ?issues)"
          using "1.prems"(1) by simp
        from "1.IH" [OF lt refl refl refl ne _ len inv] False "1.prems"(3,4) eq
        show ?thesis by auto
      qed
    qed
  qed
qed

lemma list_tickets_loop_empty:
  "search_issues jira q f start_at (list_batch_size max_results b total_issues) = [] \<Longrightarrow>
   list_tickets_loop jira q f max_results b start_at total_issues sent
     = Some (total_issues, sent @ [Search q f start_at (list_batch_size max_results b total_issues)])"
  by (subst list_tickets_loop.simps) (simp add: Let_def)

lemma list_tickets_loop_last:
  "search_issues jira q f start_at (list_batch_size max_results b total_issues) \<noteq> [] \<Longrightarrow>
   int (length (search_issues jira q f start_at (list_batch_size max_results b total_issues)))
       < list_batch_size max_results b total_issues
     \<or> (max_results > 0
        \<and> int (length (total_issues
                         @ search_issues jira q f start_at (list_batch_size max_results b total_issues)))
            \<ge> max_results) \<Longrightarrow>
   list_tickets_loop jira q f max_results b start_at total_issues sent
     = Some (total_issues @ search_issues jira q f start_at (list_batch_size max_results b total_issues),
             sent @ [Search q f start_at (list_batch_size max_results b total_issues)])"
  by (subst list_tickets_loop.simps) (auto simp: Let_def)

lemma list_tickets_loop_next:
  "search_issues jira q f start_at (list_batch_size max_results b total_issues) \<noteq> [] \<Longrightarrow>
   \<not> (int (length (search_issues jira q f start_at (list_batch_size max_results b total_issues)))
        < list_batch_size max_results b total_issues
      \<or> (max_results > 0
         \<and> int (length (total_issues
                          @ search_issues jira q f start_at (list_batch_size max_results b total_issues)))
             \<ge> max_results)) \<Longrightarrow>
   list_tickets_loop jira q f max_results b start_at total_issues sent
     = list_tickets_loop jira q f max_results b
         (start_at + int (length (search_issues jira q f start_at
                                    (list_batch_size max_results b total_issues))))
         (total_issues @ search_issues jira q f start_at (list_batch_size max_results b total_issues))
         (sent @ [Search q f start_at (list_batch_size max_results b total_issues)])"
  by (subst list_tickets_loop.simps) (auto simp: Let_def)

lemma list_tickets_loop_capped:
  assumes "0 < max_results"
    and "\<forall>s n. length (search_issues jira q f s n) \<le> nat n"
  shows "int (length total_issues) < max_results
     \<Longrightarrow> \<exists>issues sent'. list_tickets_loop jira q f max_results b start_at total_issues sent
                           = Some (issues, sent')
                         \<and> int (length issues) \<le> max_results"
proof (induction "nat (max_results - int (length total_issues))"
    arbitrary: start_at total_issues sent rule: less_induct)
  case less
  let ?n = "list_batch_size max_results b total_issues"
  let ?issues = "search_issues jira q f start_at ?n"
  let ?stop = "int (length ?issues) < ?n
     \<or> (max_results > 0 \<and> int (length (total_issues @ ?issues)) \<ge> max_results)"
  have "?n \<le> max_results - int (length total_issues)"
    using assms(1) by (simp add: list_batch_size_def)
  moreover have "int (length ?issues) \<le> max ?n 0"
    using assms(2) [rule_format, of start_at ?n] by linarith
  ultimately have bound: "int (length (total_issues @ ?issues)) \<le> max_results"
    using less.prems by simp
  consider (empty) "?issues = []" | (last) "?issues \<noteq> []" "?stop" | (go) "?issues \<noteq> []" "\<not> ?stop"
    by blast
  then show ?case
  proof cases
    case empty
    with less.prems show ?thesis by (simp add: list_tickets_loop_empty)
  next
    case last
    with bound show ?thesis by (simp add: list_tickets_loop_last)
  next
    case go
    then have lt: "int (length (total_issues @ ?issues)) < max_results"
      using assms(1) by simp
    have "nat (max_results - int (length (total_issues @ ?issues)))
            < nat (max_results - int (length total_issues))"
      using go(1) less.prems by (cases ?issues) simp_all
    from less.hyps [OF this lt] show ?thesis
      unfolding list_tickets_loop_next [OF go] .
  qed
qed

lemma lt_reaches_same_result:
  "lt_reaches jira q f max_results b start_at total_issues sent
     \<Longrightarrow> list_tickets_loop jira q f max_results b start_at total_issues sent
           = list_tickets_loop jira q f max_results b 0 [] []"
proof (induction rule: lt_reaches.induct)
  case first_round
  show ?case by simp
next
  case (next_round start_at total_issues sent issues)
  then show ?case
    using list_tickets_loop_next [of jira q f start_at max_results b total_issues sent]
    by simp
qed

lemma lt_reaches_below_max:
  "lt_reaches jira q f max_results b start_at total_issues sent
     \<Longrightarrow> 0 < max_results \<Longrightarrow> int (length total_issues) < max_results"
  by (induction rule: lt_reaches.induct) auto

lemma run_jql_three_batches:
  assumes total: "search_total jira q = 125"
    and pages: "\<forall>s n. 0 \<le> s \<and> 0 < n \<and> s + n \<le> 125
                  \<longrightarrow> int (length (search_issues jira q f s n)) = n"
  shows "requests (run_jql jira q f 0 50 fmt)
           = [SearchCount q, Search q f 0 50, Search q f 50 50, Search q f 100 25]"
    and "\<exists>issues out. finished (run_jql jira q f 0 50 fmt) = Inr (issues, out) \<and> length issues = 125"
proof -
  let ?i1 = "search_issues jira q f 0 50"
  let ?i2 = "search_issues jira q f 50 50"
  let ?i3 = "search_issues jira q f 100 25"
  have l1: "int (length ?i1) = 50" and l2: "int (length ?i2) = 50" and l3: "int (length ?i3) = 25"
    using pages by simp_all
  then have ne: "?i1 \<noteq> []" "?i2 \<noteq> []" "?i3 \<noteq> []"
    by auto
  have "run_jql_loop jira q f 0 50 125 0 [] [SearchCount q]
          = run_jql_loop jira q f 0 50 125 50 ?i1 [SearchCount q, Search q f 0 50]"
    using ne(1) l1 by (subst run_jql_loop_next) simp_all
  also have "\<dots> = run_jql_loop jira q f 0 50 125 100 (?i1 @ ?i2)
                     [SearchCount q, Search q f 0 50, Search q f 50 50]"
    using ne(2) l2 by (subst run_jql_loop_next) simp_all
  also have "\<dots> = run_jql_loop jira q f 0 50 125 125 (?i1 @ ?i2 @ ?i3)
                     [SearchCount q, Search q f 0 50, Search q f 50 50, Search q f 100 25]"
    using ne(3) l3 by (subst run_jql_loop_next) simp_all
  also have "\<dots> = (?i1 @ ?i2 @ ?i3,
                   [SearchCount q, Search q f 0 50, Search q f 50 50, Search q f 100 25])"
    by (simp add: run_jql_loop_done)
  finally have loop: "run_jql_loop jira q f 0 50 125 0 [] [SearchCount q]
      = (?i1 @ ?i2 @ ?i3, [SearchCount q, Search q f 0 50, Search q f 50 50, Search q f 100 25])" .
  have et: "effective_total jira q 0 = 125"
    by (simp add: effective_total_def total)
  show "requests (run_jql jira q f 0 50 fmt)
           = [SearchCount q, Search q f 0 50, Search q f 50 50, Search q f 100 25]"
    by (simp add: run_jql_unfold et loop)
  have "length (?i1 @ ?i2 @ ?i3) = 125"
    using l1 l2 l3 by simp
  then show "\<exists>issues out. finished (run_jql jira q f 0 50 fmt) = Inr (issues, out) \<and> length issues = 125"
    by (simp add: run_jql_unfold et loop)
qed

lemma run_jql_batch_bound:
  assumes "0 < items_per_batch" "0 \<le> max_results" "0 \<le> search_total jira q"
    and "\<forall>s n. 0 \<le> s \<and> 0 < n \<and> s + n \<le> effective_total jira q max_results
            \<longrightarrow> search_issues jira q f s n = [] \<or> int (length (search_issues jira q f s n)) = n"
  shows "\<exists>batch. requests (run_jql jira q f max_results items_per_batch fmt) = SearchCount q # batch
           \<and> list_all is_search batch
           \<and> int (length batch) \<le> num_batches (effective_total jira q max_results) items_per_batch"
proof -
  let ?cnt = "effective_total jira q max_results"
  let ?loop = "run_jql_loop jira q f max_results items_per_batch ?cnt 0 [] [SearchCount q]"
  have cnt: "0 \<le> ?cnt"
    using assms(2,3) by (simp add: effective_total_def)
  from run_jql_loop_sent [of jira q f max_results items_per_batch ?cnt 0 "[]" "[SearchCount q]"]
  obtain batch where batch: "snd ?loop = [SearchCount q] @ batch" "list_all is_search batch"
    by blast
  have "int (length (snd ?loop))
          \<le> int (length [SearchCount q]) + (if 0 < ?cnt then (?cnt - 0 + items_per_batch - 1) div items_per_batch else 0)"
    by (rule run_jql_loop_count [OF assms(1,4)]) simp
  moreover have "(?cnt + items_per_batch - 1) div items_per_batch = num_batches ?cnt items_per_batch"
    using ceil_div [OF assms(1), of ?cnt] by (simp add: num_batches_def)
  moreover have "num_batches 0 items_per_batch = 0"
    by (simp add: num_batches_def)
  ultimately have "int (length batch) \<le> num_batches ?cnt items_per_batch"
    using batch(1) cnt by (cases "0 < ?cnt") simp_all
  with batch assms(1) show ?thesis
    by (simp add: run_jql_unfold)
qed


lemma run_jql_ten:
  assumes total: "search_total jira q = 125"
    and page: "length (search_issues jira q f 0 10) = 10"
  shows "requests (run_jql jira q f 10 50 fmt) = [SearchCount q, Search q f 0 10]
         \<and> (\<exists>issues out. finished (run_jql jira q f 10 50 fmt) = Inr (issues, out)
                \<and> length issues = 10)"
proof -
  let ?i = "search_issues jira q f 0 10"
  have ne: "?i \<noteq> []" using page by auto
  have et: "effective_total jira q 10 = 10"
    by (simp add: effective_total_def total)
  have "run_jql_loop jira q f 10 50 10 0 [] [SearchCount q]
          = (take (nat 10) ([] @ ?i), [SearchCount q] @ [Search q f 0 10])"
    using ne page by (subst run_jql_loop_trim) simp_all
  then have "run_jql_loop jira q f 10 50 10 0 [] [SearchCount q]
          = (?i, [SearchCount q, Search q f 0 10])"
    using page by simp
  then show ?thesis
    using page by (simp add: run_jql_unfold et)
qed

lemma run_jql_capped:
  assumes "0 < max_results" "items_per_batch \<noteq> 0"
  shows "\<exists>issues. finished (run_jql jira q f max_results items_per_batch fmt)
                     = Inr (issues, render_jql f fmt issues)
                   \<and> int (length issues) \<le> max_results"
  using run_jql_loop_capped [of max_results "[]" jira q f items_per_batch
      "effective_total jira q max_results" 0 "[SearchCount q]"] assms
  by (simp add: run_jql_unfold)

lemma list_tickets_capped:
  assumes "0 < max_results"
    and "\<forall>q f s n. length (search_issues jira q f s n) \<le> nat n"
  shows "\<exists>r issues. list_tickets jira project_key flds extra_fields fmt filters max_results
                       items_per_batch = Some r
           \<and> finished r = Inr (issues, render_tickets project_key (with_key flds) fmt issues)
           \<and> int (length issues) \<le> max_results"
proof -
  have "\<forall>s n. length (search_issues jira (list_query project_key filters)
                        (with_key flds @ extra_fields) s n) \<le> nat n"
    using assms(2) by blast
  from list_tickets_loop_capped [OF assms(1) this, of "[]" items_per_batch 0 "[]"] assms(1)
  obtain issues sent' where
    "list_tickets_loop jira (list_query project_key filters) (with_key flds @ extra_fields)
       max_results items_per_batch 0 [] [] = Some (issues, sent')"
    "int (length issues) \<le> max_results"
    by auto
  then show ?thesis
    by (simp add: list_tickets_def)
qed

lemma run_jql_empty_page:
  assumes "items_per_batch \<noteq> 0"
  shows "\<exists>issues. finished (run_jql jira q f max_results items_per_batch fmt)
                     = Inr (issues, render_jql f fmt issues)
           \<and> (\<forall>s n. Search q f s n \<in> set (requests (run_jql jira q f max_results items_per_batch fmt))
                      \<and> search_issues jira q f s n = []
                  \<longrightarrow> int (length issues) < effective_total jira q max_results
                      \<and> last (requests (run_jql jira q f max_results items_per_batch fmt))
                          = Search q f s n)"
proof -
  let ?loop = "run_jql_loop jira q f max_results items_per_batch
                 (effective_total jira q max_results) 0 [] [SearchCount q]"
  have "int (length (fst ?loop)) < effective_total jira q max_results
          \<and> last (snd ?loop) = Search q f s n"
    if "Search q f s n \<in> set (snd ?loop)" "search_issues jira q f s n = []" for s n
    by (rule run_jql_loop_empty_page [OF _ _ that]) simp_all
  then show ?thesis
    unfolding run_jql_unfold [OF assms] by auto
qed

lemma list_tickets_empty_page:
  assumes "lt_reaches jira q f max_results b start_at total_issues sent"
    and "search_issues jira q f start_at (list_batch_size max_results b total_issues) = []"
  shows "list_tickets_loop jira q f max_results b 0 [] []
           = Some (total_issues, sent @ [Search q f start_at (list_batch_size max_results b total_issues)])
         \<and> (0 < max_results \<longrightarrow> int (length total_issues) < max_results)"
  using lt_reaches_same_result [OF assms(1)] list_tickets_loop_empty [OF assms(2)]
    lt_reaches_below_max [OF assms(1)]
  by simp

lemma stocked_page:
  "0 \<le> s \<Longrightarrow> 0 < n \<Longrightarrow> s + n \<le> int stock
     \<Longrightarrow> int (length (search_issues (stocked_jira stock reported) q f s n)) = n"
  by (simp add: stocked_jira_def)

lemma stocked_at_most:
  "length (search_issues (stocked_jira stock reported) q f s n) \<le> nat n"
  by (simp add: stocked_jira_def)

text \<open>
  Claim C2, as the code has it. With no maximum, a remote total of 125, batches of 50
  and a service that answers every request inside the total with as many issues as
  asked for, \<open>run_jql\<close> sends the count request and then exactly three batch requests, for
  50, 50 and 25 issues, and gathers 125 issues. For every batch size of at least one and
  every maximum, when each page inside the computed total is either empty or as long as
  asked for, the batch requests are no more than the computed number of batches, after
  the one count request.
\<close>

theorem run_jql_batches:
  "(search_total jira q = 125
      \<and> (\<forall>s n. 0 \<le> s \<and> 0 < n \<and> s + n \<le> 125 \<longrightarrow> int (length (search_issues jira q f s n)) = n)
    \<longrightarrow> requests (run_jql jira q f 0 50 fmt)
          = [SearchCount q, Search q f 0 50, Search q f 50 50, Search q f 100 25]
        \<and> (\<exists>issues out. finished (run_jql jira q f 0 50 fmt) = Inr (issues, out)
               \<and> length issues = 125))
   \<and> (0 < items_per_batch \<and> 0 \<le> max_results \<and> 0 \<le> search_total jira q
       \<and> (\<forall>s n. 0 \<le> s \<and> 0 < n \<and> s + n \<le> effective_total jira q max_results
              \<longrightarrow> search_issues jira q f s n = [] \<or> int (length (search_issues jira q f s n)) = n)
      \<longrightarrow> (\<exists>batch. requests (run_jql jira q f max_results items_per_batch fmt) = SearchCount q # batch
             \<and> list_all is_search batch
             \<and> int (length batch) \<le> num_batches (effective_total jira q max_results) items_per_batch))"
  using run_jql_three_batches [of jira q f fmt]
    run_jql_batch_bound [of items_per_batch max_results jira q f fmt]
  by blast

text \<open>The theorem at a service that holds 125 issues.\<close>

theorem run_jql_batches_witness:
  "search_total (stocked_jira 125 125) ''project = PROJ'' = 125
   \<and> requests (run_jql (stocked_jira 125 125) ''project = PROJ'' [''summary'', ''key''] 0 50 ''table'')
       = [SearchCount ''project = PROJ'',
          Search ''project = PROJ'' [''summary'', ''key''] 0 50,
          Search ''project = PROJ'' [''summary'', ''key''] 50 50,
          Search ''project = PROJ'' [''summary'', ''key''] 100 25]
   \<and> (\<exists>issues out.
         finished (run_jql (stocked_jira 125 125) ''project = PROJ'' [''summary'', ''key''] 0 50 ''table'')
           = Inr (issues, out)
         \<and> length issues = 125)
   \<and> num_batches (effective_total (stocked_jira 125 125) ''project = PROJ'' 0) 50 = 3
   \<and> (\<exists>batch.
         requests (run_jql (stocked_jira 125 125) ''project = PROJ'' [''summary'', ''key''] 0 50 ''table'')
           = SearchCount ''project = PROJ'' # batch
         \<and> list_all is_search batch \<and> int (length batch) \<le> 3)"
proof -
  let ?jira = "stocked_jira 125 125"
  let ?q = "''project = PROJ''"
  let ?f = "[''summary'', ''key'']"
  have total: "search_total ?jira ?q = 125"
    by (simp add: stocked_jira_def)
  have et: "effective_total ?jira ?q 0 = 125"
    by (simp add: effective_total_def total)
  have nb: "num_batches 125 50 = 3"
    by (simp add: num_batches_def)
  have pages: "\<forall>s n. 0 \<le> s \<and> 0 < n \<and> s + n \<le> 125
                 \<longrightarrow> int (length (search_issues ?jira ?q ?f s n)) = n"
    using stocked_page [of _ _ 125 125 ?q ?f] by simp
  then have pages': "\<forall>s n. 0 \<le> s \<and> 0 < n \<and> s + n \<le> effective_total ?jira ?q 0
                 \<longrightarrow> search_issues ?jira ?q ?f s n = []
                     \<or> int (length (search_issues ?jira ?q ?f s n)) = n"
    unfolding et by blast
  note inst = run_jql_batches [of ?jira ?q ?f "''table''" 50 0]
  from inst [THEN conjunct1] total pages
  have 1: "requests (run_jql ?jira ?q ?f 0 50 ''table'')
       = [SearchCount ?q, Search ?q ?f 0 50, Search ?q ?f 50 50, Search ?q ?f 100 25]
     \<and> (\<exists>issues out. finished (run_jql ?jira ?q ?f 0 50 ''table'') = Inr (issues, out)
            \<and> length issues = 125)"
    by blast
  from inst [THEN conjunct2] total pages'
  have 2: "\<exists>batch. requests (run_jql ?jira ?q ?f 0 50 ''table'') = SearchCount ?q # batch
         \<and> list_all is_search batch \<and> int (length batch) \<le> 3"
    unfolding et nb by simp
  from total 1 2 et nb show ?thesis by simp
qed

text \<open>
  Against C2 as stated: a service that sends one issue per request makes \<open>run_jql\<close> send
  three batch requests for a total of three and batches of two, where the computed
  number of batches is two.
\<close>

theorem short_pages_need_more_requests:
  "requests (run_jql trickling_jira ''project = PROJ'' [''summary'', ''key''] 0 2 ''table'')
     = [SearchCount ''project = PROJ'',
        Search ''project = PROJ'' [''summary'', ''key''] 0 2,
        Search ''project = PROJ'' [''summary'', ''key''] 1 2,
        Search ''project = PROJ'' [''summary'', ''key''] 2 1]
   \<and> num_batches (effective_total trickling_jira ''project = PROJ'' 0) 2 = 2"
proof -
  let ?q = "''project = PROJ''"
  let ?f = "[''summary'', ''key'']"
  have et: "effective_total trickling_jira ?q 0 = 3"
    by (simp add: effective_total_def trickling_jira_def)
  have p: "search_issues trickling_jira ?q ?f 0 2 = [numbered_issue 0]"
    "search_issues trickling_jira ?q ?f 1 2 = [numbered_issue 1]"
    "search_issues trickling_jira ?q ?f 2 1 = [numbered_issue 2]"
    by (simp_all add: trickling_jira_def)
  have "run_jql_loop trickling_jira ?q ?f 0 2 3 0 [] [SearchCount ?q]
          = run_jql_loop trickling_jira ?q ?f 0 2 3 1 [numbered_issue 0]
              [SearchCount ?q, Search ?q ?f 0 2]"
    by (subst run_jql_loop_next) (simp_all add: p)
  also have "\<dots> = run_jql_loop trickling_jira ?q ?f 0 2 3 2 [numbered_issue 0, numbered_issue 1]
              [SearchCount ?q, Search ?q ?f 0 2, Search ?q ?f 1 2]"
    by (subst run_jql_loop_next) (simp_all add: p)
  also have "\<dots> = run_jql_loop trickling_jira ?q ?f 0 2 3 3
              [numbered_issue 0, numbered_issue 1, numbered_issue 2]
              [SearchCount ?q, Search ?q ?f 0 2, Search ?q ?f 1 2, Search ?q ?f 2 1]"
    by (subst run_jql_loop_next) (simp_all add: p)
  also have "\<dots> = ([numbered_issue 0, numbered_issue 1, numbered_issue 2],
              [SearchCount ?q, Search ?q ?f 0 2, Search ?q ?f 1 2, Search ?q ?f 2 1])"
    by (simp add: run_jql_loop_done)
  finally show ?thesis
    by (simp add: run_jql_unfold et num_batches_def)
qed


text \<open>
  Claim C8. \<open>run_jql\<close> with a batch size other than zero always returns, raising nothing,
  and when one of its batch requests was answered with an empty page, that request is
  the last one sent and the issues gathered are fewer than the computed total. When the
  loop of \<open>list_tickets\<close> begins a round in which the page comes back empty, the run
  returns what was gathered before that round, that request being the last one sent;
  with a positive maximum, the only total that function has, these are fewer than the
  maximum.
\<close>

theorem empty_page_ends_fetching:
  "(items_per_batch \<noteq> 0
      \<longrightarrow> (\<exists>issues. finished (run_jql jira q f max_results items_per_batch fmt)
                       = Inr (issues, render_jql f fmt issues)
             \<and> (\<forall>s n. Search q f s n \<in> set (requests (run_jql jira q f max_results items_per_batch fmt))
                        \<and> search_issues jira q f s n = []
                    \<longrightarrow> int (length issues) < effective_total jira q max_results
                        \<and> last (requests (run_jql jira q f max_results items_per_batch fmt))
                            = Search q f s n)))
   \<and> (lt_reaches jira q f max_results items_per_batch start_at total_issues sent
       \<and> search_issues jira q f start_at (list_batch_size max_results items_per_batch total_issues) = []
      \<longrightarrow> list_tickets_loop jira q f max_results items_per_batch 0 [] []
            = Some (total_issues,
                    sent @ [Search q f start_at (list_batch_size max_results items_per_batch total_issues)])
          \<and> (0 < max_results \<longrightarrow> int (length total_issues) < max_results))"
  using run_jql_empty_page [of items_per_batch jira q f max_results fmt]
    list_tickets_empty_page [of jira q f max_results items_per_batch start_at total_issues sent]
  by blast

text \<open>The theorem at a service that reports five issues and holds two.\<close>

theorem empty_page_ends_fetching_witness:
  "Search ''project = PROJ'' [''summary'', ''key''] 2 2
     \<in> set (requests (run_jql (stocked_jira 2 5) ''project = PROJ'' [''summary'', ''key''] 0 2 ''table''))
   \<and> search_issues (stocked_jira 2 5) ''project = PROJ'' [''summary'', ''key''] 2 2 = []
   \<and> effective_total (stocked_jira 2 5) ''project = PROJ'' 0 = 5
   \<and> (\<exists>issues.
         finished (run_jql (stocked_jira 2 5) ''project = PROJ'' [''summary'', ''key''] 0 2 ''table'')
           = Inr (issues, render_jql [''summary'', ''key''] ''table'' issues)
         \<and> int (length issues) < 5)
   \<and> last (requests (run_jql (stocked_jira 2 5) ''project = PROJ'' [''summary'', ''key''] 0 2 ''table''))
       = Search ''project = PROJ'' [''summary'', ''key''] 2 2
   \<and> lt_reaches (stocked_jira 2 5) ''project = PROJ'' [''summary'', ''key''] 0 2 2
         [numbered_issue 0, numbered_issue 1] [Search ''project = PROJ'' [''summary'', ''key''] 0 2]
   \<and> list_tickets_loop (stocked_jira 2 5) ''project = PROJ'' [''summary'', ''key''] 0 2 0 [] []
       = Some ([numbered_issue 0, numbered_issue 1],
               [Search ''project = PROJ'' [''summary'', ''key''] 0 2,
                Search ''project = PROJ'' [''summary'', ''key''] 2 2])"
proof -
  let ?jira = "stocked_jira 2 5"
  let ?q = "''project = PROJ''"
  let ?f = "[''summary'', ''key'']"
  let ?run = "run_jql ?jira ?q ?f 0 2 ''table''"
  have et: "effective_total ?jira ?q 0 = 5"
    by (simp add: effective_total_def stocked_jira_def)
  have p0: "search_issues ?jira ?q ?f 0 2 = [numbered_issue 0, numbered_issue 1]"
    by (simp add: stocked_jira_def upt_rec)
  have p2: "search_issues ?jira ?q ?f 2 2 = []"
    by (simp add: stocked_jira_def)
  have "run_jql_loop ?jira ?q ?f 0 2 5 0 [] [SearchCount ?q]
          = run_jql_loop ?jira ?q ?f 0 2 5 2 [numbered_issue 0, numbered_issue 1]
              [SearchCount ?q, Search ?q ?f 0 2]"
    by (subst run_jql_loop_next) (simp_all add: p0)
  also have "\<dots> = ([numbered_issue 0, numbered_issue 1],
                    [SearchCount ?q, Search ?q ?f 0 2, Search ?q ?f 2 2])"
    by (subst run_jql_loop_empty) (simp_all add: p2)
  finally have req: "requests ?run = [SearchCount ?q, Search ?q ?f 0 2, Search ?q ?f 2 2]"
    by (simp add: run_jql_unfold et)
  then have mem: "Search ?q ?f 2 2 \<in> set (requests ?run)"
    by simp
  have n: "list_batch_size 0 2 [] = 2" "list_batch_size 0 2 [numbered_issue 0, numbered_issue 1] = 2"
    by (simp_all add: list_batch_size_def)
  have "lt_reaches ?jira ?q ?f 0 2 (0 + int (length [numbered_issue 0, numbered_issue 1]))
          ([] @ [numbered_issue 0, numbered_issue 1])
          ([] @ [Search ?q ?f 0 (list_batch_size 0 2 [])])"
    by (rule lt_reaches.next_round [OF lt_reaches.first_round]) (simp_all add: n p0)
  then have reach: "lt_reaches ?jira ?q ?f 0 2 2 [numbered_issue 0, numbered_issue 1] [Search ?q ?f 0 2]"
    by (simp add: n)
  note inst = empty_page_ends_fetching [of 2 ?jira ?q ?f 0 "''table''" 2
      "[numbered_issue 0, numbered_issue 1]" "[Search ?q ?f 0 2]"]
  from inst [THEN conjunct1] obtain issues where
    fin: "finished ?run = Inr (issues, render_jql ?f ''table'' issues)"
    and "\<forall>s n. Search ?q ?f s n \<in> set (requests ?run) \<and> search_issues ?jira ?q ?f s n = []
            \<longrightarrow> int (length issues) < effective_total ?jira ?q 0
                \<and> last (requests ?run) = Search ?q ?f s n"
    by auto
  with mem p2 have less: "int (length issues) < 5" "last (requests ?run) = Search ?q ?f 2 2"
    unfolding et by blast+
  from inst [THEN conjunct2] reach p2 n
  have lst: "list_tickets_loop ?jira ?q ?f 0 2 0 [] []
       = Some ([numbered_issue 0, numbered_issue 1], [Search ?q ?f 0 2, Search ?q ?f 2 2])"
    by simp
  from mem p2 et fin less reach lst show ?thesis by blast
qed

section \<open>Verification: projection and column order\<close>

lemmas projection_defs = render_tickets_def ticket_row_def ticket_dict_def project_field_def
  safe_getattr_def dict_get_def

lemma with_key_has_key: "''key'' \<in> set (with_key flds)"
  by (simp add: with_key_def)

lemma ticket_row_nth:
  "i < length flds \<Longrightarrow> ticket_row flds issue ! i = project_field issue (flds ! i)"
  by (simp add: ticket_row_def)

lemma project_key: "project_field issue ''key'' = PStr (key issue)"
  by (simp add: project_field_def)

lemma map_of_foldl_update:
  "map_of (foldl (\<lambda>d field. AList.update field (g field) d) d0 flds) k
     = (if k \<in> set flds then Some (g k) else map_of d0 k)"
  by (induction flds arbitrary: d0) (auto simp: update_conv')

lemma map_of_ticket_dict:
  "map_of (ticket_dict flds issue) field
     = (if field \<in> set flds then Some (project_field issue field) else None)"
  by (simp add: ticket_dict_def map_of_foldl_update)

lemma csv_row_is_ticket_row:
  "map (\<lambda>field. dict_get (ticket_dict flds issue) field dflt) flds = ticket_row flds issue"
  by (simp add: ticket_row_def dict_get_def map_of_ticket_dict)

lemma list_tickets_finished:
  "list_tickets jira project_key flds extra_fields fmt filters max_results items_per_batch = Some r
     \<Longrightarrow> \<exists>issues. finished r = Inr (issues, render_tickets project_key (with_key flds) fmt issues)"
  by (auto simp: list_tickets_def split: option.splits)

lemma render_tickets_rows:
  "render_tickets project_key flds fmt issues = Tabulate headers rows
     \<or> render_tickets project_key flds fmt issues = CsvFile name headers rows
   \<Longrightarrow> headers = flds \<and> rows = map (ticket_row flds) issues"
  by (auto simp: render_tickets_def csv_row_is_ticket_row split: if_splits)

lemma render_tickets_json:
  "render_tickets project_key flds fmt issues = JsonFile name data
     \<Longrightarrow> data = map (ticket_dict flds) issues"
  by (auto simp: render_tickets_def split: if_splits)

lemma render_tickets_key_cells:
  assumes "render_tickets project_key (with_key flds) fmt issues = Tabulate headers rows
           \<or> render_tickets project_key (with_key flds) fmt issues = CsvFile name headers rows"
  shows "headers = with_key flds \<and> length rows = length issues
             \<and> (\<forall>j<length issues. length (rows ! j) = length headers
                    \<and> (\<forall>i<length headers. headers ! i = ''key''
                           \<longrightarrow> rows ! j ! i = PStr (key (issues ! j))))"
proof -
  from render_tickets_rows [OF assms]
  have h: "headers = with_key flds" and r: "rows = map (ticket_row (with_key flds)) issues"
    by simp_all
  show ?thesis
    unfolding h r by (auto simp: ticket_row_def project_key)
qed

lemma render_tickets_key_entries:
  assumes "render_tickets project_key (with_key flds) fmt issues = JsonFile name data"
  shows "length data = length issues
             \<and> (\<forall>j<length issues. map_of (data ! j) ''key'' = Some (PStr (key (issues ! j))))"
proof -
  from render_tickets_json [OF assms] have d: "data = map (ticket_dict (with_key flds)) issues" .
  show ?thesis
    unfolding d by (simp add: map_of_ticket_dict with_key_has_key project_key)
qed

text \<open>
  Claim C6. The field list \<open>list_tickets\<close> works with always contains \<open>key\<close>, appended at
  the end when the caller left it out, and every output of \<open>list_tickets\<close> is rendered
  from that list. In the table and in the CSV file every cell of a column headed \<open>key\<close>
  is the identifier of the row's issue; in the JSON file the entry \<open>key\<close> of every object
  is the identifier of its issue. This holds for every issue, whatever its fields hold:
  the identifier is read from the issue itself, not looked up among the fields and not
  turned into text.
\<close>

theorem key_column_is_issue_key:
  "''key'' \<in> set (with_key flds)
   \<and> (''key'' \<notin> set flds \<longrightarrow> with_key flds = flds @ [''key''])
   \<and> (list_tickets jira project_key flds extra_fields fmt filters max_results items_per_batch = Some r
        \<longrightarrow> (\<exists>issues. finished r
                         = Inr (issues, render_tickets project_key (with_key flds) fmt issues)))
   \<and> (\<forall>name headers rows.
         render_tickets project_key (with_key flds) fmt issues = Tabulate headers rows
           \<or> render_tickets project_key (with_key flds) fmt issues = CsvFile name headers rows
         \<longrightarrow> headers = with_key flds \<and> length rows = length issues
             \<and> (\<forall>j<length issues. length (rows ! j) = length headers
                    \<and> (\<forall>i<length headers. headers ! i = ''key''
                           \<longrightarrow> rows ! j ! i = PStr (key (issues ! j)))))
   \<and> (\<forall>name data.
         render_tickets project_key (with_key flds) fmt issues = JsonFile name data
         \<longrightarrow> length data = length issues
             \<and> (\<forall>j<length issues. map_of (data ! j) ''key'' = Some (PStr (key (issues ! j)))))"
proof -
  have "''key'' \<notin> set flds \<longrightarrow> with_key flds = flds @ [''key'']"
    by (simp add: with_key_def)
  then show ?thesis
    using with_key_has_key [of flds]
      list_tickets_finished [of jira project_key flds extra_fields fmt filters max_results
        items_per_batch r]
      render_tickets_key_cells [of project_key flds fmt issues]
      render_tickets_key_entries [of project_key flds fmt issues]
    by (intro conjI allI impI) blast+
qed

text \<open>
  The theorem at a listing of two issues, and at an issue whose fields have an attribute
  called \<open>key\<close>, in the three output formats.
\<close>

theorem key_column_is_issue_key_witness:
  "''key'' \<notin> set [''summary'']
   \<and> with_key [''summary''] = [''summary'', ''key'']
   \<and> list_tickets (stocked_jira 2 2) ''PROJ'' [''summary''] [] ''table'' [] 0 50
       = Some \<lparr>requests = [Search ''project = PROJ'' [''summary'', ''key''] 0 50],
               finished = Inr ([numbered_issue 0, numbered_issue 1],
                               render_tickets ''PROJ'' (with_key [''summary'']) ''table''
                                 [numbered_issue 0, numbered_issue 1])\<rparr>
   \<and> render_tickets ''PROJ'' (with_key [''summary'']) ''table'' [decoy_issue]
       = Tabulate [''summary'', ''key''] [[PStr ''Port the module'', PStr ''PROJ-7'']]
   \<and> [[PStr ''Port the module'', PStr ''PROJ-7'']] ! 0 ! 1 = PStr (key decoy_issue)
   \<and> render_tickets ''PROJ'' (with_key [''summary'']) ''csv'' [decoy_issue]
       = CsvFile ''PROJ_tickets.csv'' [''summary'', ''key'']
           [[PStr ''Port the module'', PStr ''PROJ-7'']]
   \<and> render_tickets ''PROJ'' (with_key [''summary'']) ''json'' [decoy_issue]
       = JsonFile ''PROJ_tickets.json'' [[(''summary'', PStr ''Port the module''), (''key'', PStr ''PROJ-7'')]]
   \<and> map_of ([[(''summary'', PStr ''Port the module''), (''key'', PStr ''PROJ-7'')]] ! 0) ''key''
       = Some (PStr (key decoy_issue))"
proof -
  let ?jira = "stocked_jira 2 2"
  let ?q = "list_query ''PROJ'' []"
  let ?f = "with_key [''summary'']"
  let ?row = "[PStr ''Port the module'', PStr ''PROJ-7'']"
  let ?dict = "[(''summary'', PStr ''Port the module''), (''key'', PStr ''PROJ-7'')]"
  note inst = key_column_is_issue_key [of "[''summary'']" _ "''PROJ''" _ _ _ _ _ _ "[decoy_issue]"]
  have nk: "''key'' \<notin> set [''summary'']" by simp
  with inst [of ?jira "[]" "''table''" "[]" 0 50 undefined, THEN conjunct2, THEN conjunct1]
  have wk: "with_key [''summary''] = [''summary'', ''key'']"
    by simp
  have q: "?q = ''project = PROJ''"
    by (simp add: list_query_def)
  have n: "list_batch_size 0 50 [] = 50"
    by (simp add: list_batch_size_def)
  have p: "search_issues ?jira ?q ?f 0 50 = [numbered_issue 0, numbered_issue 1]"
    by (simp add: stocked_jira_def upt_rec)
  have ne: "search_issues ?jira ?q ?f 0 (list_batch_size 0 50 []) \<noteq> []"
    unfolding n p by simp
  have stop: "int (length (search_issues ?jira ?q ?f 0 (list_batch_size 0 50 []))) < list_batch_size 0 50 []
                \<or> (0 < (0::int) \<and> 0 \<le> int (length ([] @ search_issues ?jira ?q ?f 0 (list_batch_size 0 50 []))))"
    unfolding n p by simp
  have "list_tickets_loop ?jira ?q ?f 0 50 0 [] []
          = Some ([] @ search_issues ?jira ?q ?f 0 (list_batch_size 0 50 []),
                  [] @ [Search ?q ?f 0 (list_batch_size 0 50 [])])"
    by (rule list_tickets_loop_last [OF ne stop])
  then have run: "list_tickets ?jira ''PROJ'' [''summary''] [] ''table'' [] 0 50
       = Some \<lparr>requests = [Search ''project = PROJ'' [''summary'', ''key''] 0 50],
               finished = Inr ([numbered_issue 0, numbered_issue 1],
                               render_tickets ''PROJ'' (with_key [''summary'']) ''table''
                                 [numbered_issue 0, numbered_issue 1])\<rparr>"
    unfolding n p by (simp add: list_tickets_def q wk)
  have t: "render_tickets ''PROJ'' (with_key [''summary'']) ''table'' [decoy_issue]
             = Tabulate [''summary'', ''key''] [?row]"
    by (simp add: wk projection_defs decoy_issue_def)
  have c: "render_tickets ''PROJ'' (with_key [''summary'']) ''csv'' [decoy_issue]
             = CsvFile ''PROJ_tickets.csv'' [''summary'', ''key''] [?row]"
    by (simp add: wk projection_defs decoy_issue_def)
  have j: "render_tickets ''PROJ'' (with_key [''summary'']) ''json'' [decoy_issue]
             = JsonFile ''PROJ_tickets.json'' [?dict]"
    by (simp add: wk projection_defs decoy_issue_def)
  from inst [of ?jira "[]" "''table''" "[]" 0 50 undefined, THEN conjunct2, THEN conjunct2,
      THEN conjunct2, THEN conjunct1] t
  have cell: "[?row] ! 0 ! 1 = PStr (key decoy_issue)"
    by (auto simp: wk)
  from inst [of ?jira "[]" "''json''" "[]" 0 50 undefined, THEN conjunct2, THEN conjunct2,
      THEN conjunct2, THEN conjunct2] j
  have entry: "map_of ([?dict] ! 0) ''key'' = Some (PStr (key decoy_issue))"
    by auto
  from nk wk run t c j cell entry show ?thesis by simp
qed

text \<open>
  Claim C7 fails on \<open>run_jql\<close>. Asked for the fields \<open>key\<close> and \<open>summary\<close>, in this order,
  \<open>run_jql\<close> heads the table and the CSV file with these two names and fills every row
  with four fixed values: the summary, the name of the status, the display name of the
  assignee and the key. The value under the header \<open>key\<close> is the summary, where the
  projection of the first requested field is the identifier of the issue.
\<close>

theorem run_jql_fixed_columns:
  "finished (run_jql (stocked_jira 2 2) ''project = PROJ'' [''key'', ''summary''] 0 50 ''table'')
     = Inr ([numbered_issue 0, numbered_issue 1],
            Tabulate [''key'', ''summary'']
              [[PStr ''Port the module'', PStr ''Open'', PStr ''Unassigned'', PStr ''PROJ-1''],
               [PStr ''Port the module'', PStr ''Open'', PStr ''Unassigned'', PStr ''PROJ-10'']])
   \<and> finished (run_jql (stocked_jira 2 2) ''project = PROJ'' [''key'', ''summary''] 0 50 ''csv'')
     = Inr ([numbered_issue 0, numbered_issue 1],
            CsvFile ''jql_query_tickets.csv'' [''key'', ''summary'']
              [[PStr ''Port the module'', PStr ''Open'', PStr ''Unassigned'', PStr ''PROJ-1''],
               [PStr ''Port the module'', PStr ''Open'', PStr ''Unassigned'', PStr ''PROJ-10'']])
   \<and> project_field (numbered_issue 0) ''key'' = PStr ''PROJ-1''
   \<and> project_field (numbered_issue 0) ''summary'' = PStr ''Port the module''"
proof -
  let ?jira = "stocked_jira 2 2"
  let ?q = "''project = PROJ''"
  let ?f = "[''key'', ''summary'']"
  have et: "effective_total ?jira ?q 0 = 2"
    by (simp add: effective_total_def stocked_jira_def)
  have p: "search_issues ?jira ?q ?f 0 2 = [numbered_issue 0, numbered_issue 1]"
    by (simp add: stocked_jira_def upt_rec)
  have "run_jql_loop ?jira ?q ?f 0 50 2 0 [] [SearchCount ?q]
          = run_jql_loop ?jira ?q ?f 0 50 2 2 [numbered_issue 0, numbered_issue 1]
              [SearchCount ?q, Search ?q ?f 0 2]"
    by (subst run_jql_loop_next) (simp_all add: p)
  also have "\<dots> = ([numbered_issue 0, numbered_issue 1], [SearchCount ?q, Search ?q ?f 0 2])"
    by (simp add: run_jql_loop_done)
  finally have loop: "run_jql_loop ?jira ?q ?f 0 50 2 0 [] [SearchCount ?q]
                        = ([numbered_issue 0, numbered_issue 1], [SearchCount ?q, Search ?q ?f 0 2])" .
  have row: "jql_row (numbered_issue 0)
               = [PStr ''Port the module'', PStr ''Open'', PStr ''Unassigned'', PStr ''PROJ-1'']"
    "jql_row (numbered_issue 1)
               = [PStr ''Port the module'', PStr ''Open'', PStr ''Unassigned'', PStr ''PROJ-10'']"
    by (simp_all add: jql_row_def numbered_issue_def getattr_default_def safe_getattr_def)
  have k: "project_field (numbered_issue 0) ''key'' = PStr ''PROJ-1''"
    "project_field (numbered_issue 0) ''summary'' = PStr ''Port the module''"
    by (simp_all add: project_field_def numbered_issue_def safe_getattr_def)
  have "finished (run_jql ?jira ?q ?f 0 50 fmt)
          = Inr ([numbered_issue 0, numbered_issue 1],
                 render_jql ?f fmt [numbered_issue 0, numbered_issue 1])" for fmt
    by (simp add: run_jql_unfold et loop)
  then show ?thesis
    by (simp add: render_jql_def row k del: One_nat_def)
qed

end
